theory Spec2Isabelle
  imports Main "HOL-Library.Word"
begin

section \<open>The embedded interpreter, as far as \<open>scripting/lua.cpp\<close> uses it\<close>

text \<open>
  \<open>lua.cpp\<close> drives a Lua 5.1 interpreter through its C API. The interpreter is an
  external library; the definitions of this section follow the Lua 5.1 reference manual
  for exactly the API functions the file calls. Values are those a script can hand to
  native code. A Lua number is a double in the library; the model carries the
  integer-valued numbers. A table value is a reference into the table heap of the
  interpreter state; tables have string keys, and metatables are not modelled. A light
  userdata carries a raw native address.
\<close>

datatype callback = CB_NpcMessage | CB_NpcChoice

datatype lua_value =
    LNil
  | LBoolean bool
  | LLightUserData nat
  | LNumber int
  | LString string
  | LTable nat
  | LFunction nat
  | LCFunction callback
  | LUserData nat
  | LThread nat

text \<open>Status codes of \<open>lua.h\<close>: \<open>LUA_ERRRUN = 2\<close>, \<open>LUA_ERRSYNTAX = 3\<close>,
  \<open>LUA_ERRMEM = 4\<close>, \<open>LUA_ERRERR = 5\<close>; 0 is success.\<close>

datatype lua_status = LUA_ERRRUN | LUA_ERRSYNTAX | LUA_ERRMEM | LUA_ERRERR

fun status_code :: "lua_status \<Rightarrow> int" where
  "status_code LUA_ERRRUN = 2"
| "status_code LUA_ERRSYNTAX = 3"
| "status_code LUA_ERRMEM = 4"
| "status_code LUA_ERRERR = 5"

text \<open>
  What running a function does: it returns a list of values, raises an error object with
  a status, never returns (an endless loop), or takes the process down (a native callback
  it invoked dereferenced an invalid pointer).
\<close>

datatype call_result =
    Returns "lua_value list"
  | Raises lua_status lua_value
  | Diverges
  | Crashes

text \<open>The ways the native code stops instead of returning.\<close>

datatype fault =
    AssertionFailed
  | InvalidPointer
  | LuaPanic
  | LuaApiMisuse
  | NoReturn
  | NullDeref

subsection \<open>The native side: logger, outgoing messages, simulation objects\<close>

datatype log_level = LOG_ERROR | LOG_WARN | LOG_INFO | LOG_DEBUG

text \<open>A log line is the sequence of values streamed into it with \<open><<\<close>; \<open>NullStr\<close> is
  a null \<open>char const *\<close> streamed as it is.\<close>

datatype piece = S string | I int | NullStr

type_synonym log_entry = "log_level \<times> piece list"

datatype ThingType = OBJECT_NPC | OBJECT_CHARACTER | OBJECT_OTHER nat

record Thing =
  getType :: ThingType
  getPublicID :: int

datatype msg_id = GPMSG_NPC_MESSAGE | GPMSG_NPC_CHOICE

datatype msg_field = WriteShort int | WriteString string nat

record MessageOut =
  msg_type :: msg_id
  msg_fields :: "msg_field list"

text \<open>
  \<open>things\<close> is the native heap of simulation objects: an address holds a \<open>Thing\<close> while
  the object is alive. \<open>sent\<close> collects the calls of \<open>gameHandler->sendTo\<close>, and
  \<open>lua_states\<close> counts the interpreter states that are open (\<open>luaL_newstate\<close> without
  its \<open>lua_close\<close>).
\<close>

record world =
  log :: "log_entry list"
  sent :: "(nat \<times> MessageOut) list"
  things :: "nat \<rightharpoonup> Thing"
  lua_states :: nat

definition LOG :: "log_level \<Rightarrow> piece list \<Rightarrow> world \<Rightarrow> world" where
  "LOG lvl ps w = w\<lparr>log := log w @ [(lvl, ps)]\<rparr>"

subsection \<open>The interpreter state and the C API\<close>

text \<open>
  The stack of the running C function: index 1 is the head of the list, the top is its
  last element. \<open>globals\<close> is the table of global variables, \<open>loaded\<close> the registry
  table \<open>_LOADED\<close> (\<open>package.loaded\<close>), \<open>tables\<close> the heap of all other tables and
  \<open>next_table\<close> the reference the next new table gets; a key that is not set reads as
  \<open>LNil\<close>.
\<close>

record lua_State =
  stack :: "lua_value list"
  globals :: "string \<Rightarrow> lua_value"
  loaded :: "string \<Rightarrow> lua_value"
  tables :: "nat \<Rightarrow> string \<Rightarrow> lua_value"
  next_table :: nat

text \<open>
  What the library and the loaded script contribute and the source does not define:
  \<open>run f args\<close> is the behaviour of the Lua function \<open>f\<close> on the arguments \<open>args\<close>
  (in order), as a transformer of the interpreter state and the native world;
  \<open>number2str\<close> is \<open>lua_number2str\<close>, \<open>str2number\<close> is the string-to-number coercion
  \<open>luaO_str2d\<close>; \<open>compile\<close> is the parser behind \<open>luaL_loadstring\<close> (an error status
  with its message, or the chunk as a function); \<open>openlibs\<close> is \<open>luaL_openlibs\<close>,
  which fills the global table, \<open>_LOADED\<close> and the table heap with the standard
  libraries.
\<close>

record lua_lib =
  run :: "nat \<Rightarrow> lua_value list \<Rightarrow> lua_State \<times> world \<Rightarrow> call_result \<times> lua_State \<times> world"
  number2str :: "int \<Rightarrow> string"
  str2number :: "string \<Rightarrow> int option"
  compile :: "string \<Rightarrow> (lua_status \<times> string) + nat"
  openlibs :: "lua_State \<Rightarrow> lua_State"

definition index2adr :: "lua_State \<Rightarrow> nat \<Rightarrow> lua_value option" where
  "index2adr L i = (if 1 \<le> i \<and> i \<le> length (stack L) then Some (stack L ! (i - 1)) else None)"

text \<open>\<open>lua_type\<close> with \<open>LUA_TNONE = -1\<close> for an index above the top.\<close>

definition lua_type :: "lua_State \<Rightarrow> nat \<Rightarrow> int" where
  "lua_type L i =
     (case index2adr L i of
        None \<Rightarrow> -1
      | Some LNil \<Rightarrow> 0
      | Some (LBoolean _) \<Rightarrow> 1
      | Some (LLightUserData _) \<Rightarrow> 2
      | Some (LNumber _) \<Rightarrow> 3
      | Some (LString _) \<Rightarrow> 4
      | Some (LTable _) \<Rightarrow> 5
      | Some (LFunction _) \<Rightarrow> 6
      | Some (LCFunction _) \<Rightarrow> 6
      | Some (LUserData _) \<Rightarrow> 7
      | Some (LThread _) \<Rightarrow> 8)"

definition lua_typename :: "int \<Rightarrow> string" where
  "lua_typename t =
     (if t = -1 then ''no value''
      else if t = 0 then ''nil''
      else if t = 1 then ''boolean''
      else if t = 2 then ''userdata''
      else if t = 3 then ''number''
      else if t = 4 then ''string''
      else if t = 5 then ''table''
      else if t = 6 then ''function''
      else if t = 7 then ''userdata''
      else ''thread'')"

fun type_name_of :: "lua_value \<Rightarrow> string" where
  "type_name_of LNil = ''nil''"
| "type_name_of (LBoolean _) = ''boolean''"
| "type_name_of (LLightUserData _) = ''userdata''"
| "type_name_of (LNumber _) = ''number''"
| "type_name_of (LString _) = ''string''"
| "type_name_of (LTable _) = ''table''"
| "type_name_of (LFunction _) = ''function''"
| "type_name_of (LCFunction _) = ''function''"
| "type_name_of (LUserData _) = ''userdata''"
| "type_name_of (LThread _) = ''thread''"

definition lua_islightuserdata :: "lua_State \<Rightarrow> nat \<Rightarrow> bool" where
  "lua_islightuserdata L i = (lua_type L i = 2)"

text \<open>\<open>lua_touserdata\<close>: the address a userdata carries, \<open>None\<close> for \<open>NULL\<close>.\<close>

definition lua_touserdata :: "lua_State \<Rightarrow> nat \<Rightarrow> nat option" where
  "lua_touserdata L i =
     (case index2adr L i of
        Some (LLightUserData p) \<Rightarrow> Some p
      | Some (LUserData p) \<Rightarrow> Some p
      | _ \<Rightarrow> None)"

text \<open>
  \<open>lua_tolstring\<close>: a string is returned as it is; a number is converted, and the
  conversion also replaces the value in the stack; anything else gives \<open>NULL\<close>.
\<close>

definition lua_tolstring :: "lua_lib \<Rightarrow> lua_State \<Rightarrow> nat \<Rightarrow> string option \<times> lua_State" where
  "lua_tolstring lib L i =
     (case index2adr L i of
        Some (LString s) \<Rightarrow> (Some s, L)
      | Some (LNumber n) \<Rightarrow>
          (Some (number2str lib n), L\<lparr>stack := (stack L)[i - 1 := LString (number2str lib n)]\<rparr>)
      | _ \<Rightarrow> (None, L))"

definition lua_tostring :: "lua_lib \<Rightarrow> lua_State \<Rightarrow> nat \<Rightarrow> string option \<times> lua_State" where
  "lua_tostring lib L i = lua_tolstring lib L i"

text \<open>\<open>lua_isnumber\<close>: a number, or a string convertible to a number.\<close>

definition lua_isnumber :: "lua_lib \<Rightarrow> lua_State \<Rightarrow> nat \<Rightarrow> bool" where
  "lua_isnumber lib L i =
     (case index2adr L i of
        Some (LNumber _) \<Rightarrow> True
      | Some (LString s) \<Rightarrow> str2number lib s \<noteq> None
      | _ \<Rightarrow> False)"

definition lua_tointeger :: "lua_lib \<Rightarrow> lua_State \<Rightarrow> nat \<Rightarrow> int" where
  "lua_tointeger lib L i =
     (case index2adr L i of
        Some (LNumber n) \<Rightarrow> n
      | Some (LString s) \<Rightarrow> (case str2number lib s of Some n \<Rightarrow> n | None \<Rightarrow> 0)
      | _ \<Rightarrow> 0)"

definition lua_pop :: "lua_State \<Rightarrow> nat \<Rightarrow> lua_State" where
  "lua_pop L n = L\<lparr>stack := take (length (stack L) - n) (stack L)\<rparr>"

definition lua_getglobal :: "lua_State \<Rightarrow> string \<Rightarrow> lua_State" where
  "lua_getglobal L name = L\<lparr>stack := stack L @ [globals L name]\<rparr>"

definition lua_pushinteger :: "lua_State \<Rightarrow> int \<Rightarrow> lua_State" where
  "lua_pushinteger L n = L\<lparr>stack := stack L @ [LNumber n]\<rparr>"

definition lua_pushlightuserdata :: "lua_State \<Rightarrow> nat \<Rightarrow> lua_State" where
  "lua_pushlightuserdata L p = L\<lparr>stack := stack L @ [LLightUserData p]\<rparr>"

text \<open>
  \<open>luaL_newstate\<close> opens an empty interpreter state and \<open>lua_close\<close> releases one;
  \<open>luaL_loadstring\<close> pushes the compiled chunk, or the error message, and returns the
  status.
\<close>

definition luaL_newstate :: "world \<Rightarrow> lua_State \<times> world" where
  "luaL_newstate w =
     (\<lparr>stack = [], globals = (\<lambda>_. LNil), loaded = (\<lambda>_. LNil), tables = (\<lambda>_ _. LNil),
       next_table = 0\<rparr>,
      w\<lparr>lua_states := lua_states w + 1\<rparr>)"

definition lua_close :: "world \<Rightarrow> world" where
  "lua_close w = w\<lparr>lua_states := lua_states w - 1\<rparr>"

definition luaL_loadstring :: "lua_lib \<Rightarrow> lua_State \<Rightarrow> string \<Rightarrow> int \<times> lua_State" where
  "luaL_loadstring lib L s =
     (case compile lib s of
        Inr f \<Rightarrow> (0, L\<lparr>stack := stack L @ [LFunction f]\<rparr>)
      | Inl (st, msg) \<Rightarrow> (status_code st, L\<lparr>stack := stack L @ [LString msg]\<rparr>))"

definition luaL_openlibs :: "lua_lib \<Rightarrow> lua_State \<Rightarrow> lua_State" where
  "luaL_openlibs lib L = (openlibs lib L)\<lparr>stack := stack L\<rparr>"

subsection \<open>Resolving the pointers a script passes back\<close>

text \<open>
  \<open>getNPC\<close> and \<open>getCharacter\<close> cast the address of a light userdata to \<open>Thing *\<close> and
  call \<open>getType\<close> through it. The call reads the native heap at that address: where no
  object lives there any more, the read is of freed memory (\<open>InvalidPointer\<close>). The
  result \<open>None\<close> is the \<open>NULL\<close> the functions return.
\<close>

definition getNPC :: "world \<Rightarrow> lua_State \<Rightarrow> nat \<Rightarrow> fault + nat option" where
  "getNPC w s p =
     (if \<not> lua_islightuserdata s p then Inr None
      else case lua_touserdata s p of
        None \<Rightarrow> Inl NullDeref
      | Some t \<Rightarrow>
          (case things w t of
             None \<Rightarrow> Inl InvalidPointer
           | Some th \<Rightarrow> if getType th \<noteq> OBJECT_NPC then Inr None else Inr (Some t)))"

definition getCharacter :: "world \<Rightarrow> lua_State \<Rightarrow> nat \<Rightarrow> fault + nat option" where
  "getCharacter w s p =
     (if \<not> lua_islightuserdata s p then Inr None
      else case lua_touserdata s p of
        None \<Rightarrow> Inl NullDeref
      | Some t \<Rightarrow>
          (case things w t of
             None \<Rightarrow> Inl InvalidPointer
           | Some th \<Rightarrow> if getType th \<noteq> OBJECT_CHARACTER then Inr None else Inr (Some t)))"

subsection \<open>The native callbacks\<close>

text \<open>\<open>std::string(m)\<close> reads the C string up to its first NUL.\<close>

definition c_str :: "string \<Rightarrow> string" where
  "c_str m = takeWhile (\<lambda>c. c \<noteq> CHR 0x00) m"

text \<open>
  A callback gets its arguments as the stack of \<open>s\<close> (argument 1 at index 1) and returns
  the number of results it leaves for the script, here always 0.
\<close>

definition LuaMsg_NpcMessage :: "lua_lib \<Rightarrow> lua_State \<Rightarrow> world \<Rightarrow> fault + (nat \<times> lua_State \<times> world)" where
  "LuaMsg_NpcMessage lib s w =
     (case getNPC w s 1 of
        Inl f \<Rightarrow> Inl f
      | Inr p \<Rightarrow>
     (case getCharacter w s 2 of
        Inl f \<Rightarrow> Inl f
      | Inr q \<Rightarrow>
     (case lua_tolstring lib s 3 of (m, s') \<Rightarrow>
        if p = None \<or> q = None \<or> m = None
        then Inr (0, s', LOG LOG_WARN [S ''LuaMsg_NpcMessage called with incorrect parameters.''] w)
        else (case things w (the p) of
                None \<Rightarrow> Inl InvalidPointer
              | Some npc \<Rightarrow>
                  Inr (0, s',
                       w\<lparr>sent := sent w @
                           [(the q, \<lparr>msg_type = GPMSG_NPC_MESSAGE,
                                     msg_fields = [WriteShort (getPublicID npc),
                                                   WriteString (c_str (the m)) (length (the m))]\<rparr>)]\<rparr>)))))"

definition LuaMsg_NpcChoice :: "lua_lib \<Rightarrow> lua_State \<Rightarrow> world \<Rightarrow> fault + (nat \<times> lua_State \<times> world)" where
  "LuaMsg_NpcChoice lib s w =
     (case getNPC w s 1 of
        Inl f \<Rightarrow> Inl f
      | Inr p \<Rightarrow>
     (case getCharacter w s 2 of
        Inl f \<Rightarrow> Inl f
      | Inr q \<Rightarrow>
     (case lua_tolstring lib s 3 of (m, s') \<Rightarrow>
        if p = None \<or> q = None \<or> m = None
        then Inr (0, s', LOG LOG_WARN [S ''LuaMsg_NpcChoice called with incorrect parameters.''] w)
        else (case things w (the p) of
                None \<Rightarrow> Inl InvalidPointer
              | Some npc \<Rightarrow>
                  Inr (0, s',
                       w\<lparr>sent := sent w @
                           [(the q, \<lparr>msg_type = GPMSG_NPC_CHOICE,
                                     msg_fields = [WriteShort (getPublicID npc),
                                                   WriteString (c_str (the m)) (length (the m))]\<rparr>)]\<rparr>)))))"

fun call_callback :: "callback \<Rightarrow> lua_lib \<Rightarrow> lua_State \<Rightarrow> world \<Rightarrow> fault + (nat \<times> lua_State \<times> world)" where
  "call_callback CB_NpcMessage = LuaMsg_NpcMessage"
| "call_callback CB_NpcChoice = LuaMsg_NpcChoice"

subsection \<open>Protected calls\<close>

text \<open>
  Calling a value: a Lua function behaves as \<open>run\<close> says, a C function is the callback
  run on a stack that holds the arguments, and any other value raises the runtime error
  "attempt to call a ... value".
\<close>

definition lua_call_value ::
  "lua_lib \<Rightarrow> lua_value \<Rightarrow> lua_value list \<Rightarrow> lua_State \<times> world \<Rightarrow> call_result \<times> lua_State \<times> world" where
  "lua_call_value lib f args Lw =
     (case f of
        LFunction fid \<Rightarrow> run lib fid args Lw
      | LCFunction cb \<Rightarrow>
          (case call_callback cb lib ((fst Lw)\<lparr>stack := args\<rparr>) (snd Lw) of
             Inl _ \<Rightarrow> (Crashes, Lw)
           | Inr (n, L', w') \<Rightarrow>
               (Returns (drop (length (stack L') - n) (stack L')), L', w'))
      | v \<Rightarrow> (Raises LUA_ERRRUN (LString (''attempt to call a '' @ type_name_of v @ '' value'')), Lw))"

text \<open>Results are adjusted to \<open>nresults\<close> values: cut, or filled up with \<open>nil\<close>.\<close>

definition adjust_results :: "nat \<Rightarrow> lua_value list \<Rightarrow> lua_value list" where
  "adjust_results n vs = take n vs @ replicate (n - length vs) LNil"

text \<open>
  \<open>lua_pcall(L, nargs, nresults, 0)\<close>: the function is below its \<open>nargs\<close> arguments on
  top of the stack. Function and arguments are removed; on success the adjusted results
  are pushed and 0 is returned, on an error the error object is pushed and the status
  returned. The stack below the function is not touched by the call.
\<close>

definition lua_pcall :: "lua_lib \<Rightarrow> lua_State \<Rightarrow> world \<Rightarrow> int \<Rightarrow> nat \<Rightarrow> fault + (int \<times> lua_State \<times> world)" where
  "lua_pcall lib L w nargs nresults =
     (if nargs < 0 \<or> length (stack L) < nat nargs + 1 then Inl LuaApiMisuse
      else
        let k = length (stack L) - (nat nargs + 1);
            base = take k (stack L);
            f = stack L ! k;
            args = drop (k + 1) (stack L)
        in case lua_call_value lib f args (L\<lparr>stack := base\<rparr>, w) of
             (Returns vs, L', w') \<Rightarrow> Inr (0, L'\<lparr>stack := base @ adjust_results nresults vs\<rparr>, w')
           | (Raises st e, L', w') \<Rightarrow> Inr (status_code st, L'\<lparr>stack := base @ [e]\<rparr>, w')
           | (Diverges, _, _) \<Rightarrow> Inl NoReturn
           | (Crashes, _, _) \<Rightarrow> Inl InvalidPointer)"

subsection \<open>Registering the callbacks\<close>

text \<open>
  \<open>luaL_register(L, libname, l)\<close> of the Lua 5.1 auxiliary library: the library table is
  \<open>_LOADED[libname]\<close> when that is a table; otherwise it is the global \<open>libname\<close>, created
  when the global is \<open>nil\<close>, and stored in \<open>_LOADED\<close>. A global \<open>libname\<close> that holds
  anything but a table is a name conflict: \<open>luaL_error\<close> outside a protected call, which
  ends in the panic function and \<open>exit\<close>. The functions of \<open>l\<close> become fields of the
  table, and the table is left on the stack.
\<close>

definition callbacks :: "(string \<times> callback) list" where
  "callbacks = [(''msg_npc_message'', CB_NpcMessage), (''msg_npc_choice'', CB_NpcChoice)]"

fun set_fields :: "(string \<times> callback) list \<Rightarrow> (string \<Rightarrow> lua_value) \<Rightarrow> (string \<Rightarrow> lua_value)" where
  "set_fields [] t = t"
| "set_fields ((name, func) # l) t = set_fields l (t(name := LCFunction func))"

definition register_into :: "lua_State \<Rightarrow> nat \<Rightarrow> (string \<times> callback) list \<Rightarrow> lua_State" where
  "register_into L t l =
     L\<lparr>tables := (tables L)(t := set_fields l (tables L t)), stack := stack L @ [LTable t]\<rparr>"

definition luaL_register :: "lua_State \<Rightarrow> string \<Rightarrow> (string \<times> callback) list \<Rightarrow> fault + lua_State" where
  "luaL_register L libname l =
     (case loaded L libname of
        LTable t \<Rightarrow> Inr (register_into L t l)
      | _ \<Rightarrow>
          (case globals L libname of
             LNil \<Rightarrow>
               (let t = next_table L;
                    L1 = L\<lparr>globals := (globals L)(libname := LTable t),
                           loaded := (loaded L)(libname := LTable t),
                           tables := (tables L)(t := (\<lambda>_. LNil)),
                           next_table := t + 1\<rparr>
                in Inr (register_into L1 t l))
           | LTable t \<Rightarrow>
               Inr (register_into (L\<lparr>loaded := (loaded L)(libname := LTable t)\<rparr>) t l)
           | _ \<Rightarrow> Inl LuaPanic))"

section \<open>\<open>LuaScript\<close>: the Script implementation of \<open>scripting/lua.cpp\<close>\<close>

text \<open>
  The object holds its interpreter state and the argument counter of the call in
  preparation (\<open>-1\<close>: no call prepared). \<open>int\<close> values that cross the boundary are 32-bit
  (\<open>32 word\<close>, read as signed by \<open>sint\<close>); \<open>nbArgs\<close> counts pushed arguments and stays far below that range, so it
  is an \<open>int\<close> here. A failed \<open>assert\<close> aborts the process: \<open>AssertionFailed\<close>.
\<close>

record LuaScript =
  mState :: lua_State
  nbArgs :: int

definition LuaScript_ctor :: "lua_lib \<Rightarrow> lua_State \<Rightarrow> world \<Rightarrow> fault + (LuaScript \<times> world)" where
  "LuaScript_ctor lib s w =
     (let L0 = luaL_openlibs lib s in
      case lua_pcall lib L0 w 0 0 of
        Inl f \<Rightarrow> Inl f
      | Inr (res, L1, w1) \<Rightarrow>
          if res \<noteq> 0 then
            (case lua_tostring lib L1 1 of (m, L2) \<Rightarrow>
               Inr (\<lparr>mState = lua_pop L2 1, nbArgs = -1\<rparr>,
                    LOG LOG_ERROR [S ''Failure while initializing Lua script: '',
                                   (case m of Some t \<Rightarrow> S t | None \<Rightarrow> NullStr)] w1))
          else
            (case luaL_register L1 ''tmw'' callbacks of
               Inl f \<Rightarrow> Inl f
             | Inr L2 \<Rightarrow> Inr (\<lparr>mState = lua_pop L2 1, nbArgs = -1\<rparr>, w1)))"

definition LuaScript_dtor :: "LuaScript \<Rightarrow> world \<Rightarrow> world" where
  "LuaScript_dtor scr w = lua_close w"

definition prepare :: "LuaScript \<Rightarrow> string \<Rightarrow> fault + LuaScript" where
  "prepare scr name =
     (if nbArgs scr \<noteq> -1 then Inl AssertionFailed
      else Inr (scr\<lparr>mState := lua_getglobal (mState scr) name, nbArgs := 0\<rparr>))"

definition push_int :: "LuaScript \<Rightarrow> 32 word \<Rightarrow> fault + LuaScript" where
  "push_int scr v =
     (if \<not> nbArgs scr \<ge> 0 then Inl AssertionFailed
      else Inr (scr\<lparr>mState := lua_pushinteger (mState scr) (sint v), nbArgs := nbArgs scr + 1\<rparr>))"

definition push_thing :: "LuaScript \<Rightarrow> nat \<Rightarrow> fault + LuaScript" where
  "push_thing scr v =
     (if \<not> nbArgs scr \<ge> 0 then Inl AssertionFailed
      else Inr (scr\<lparr>mState := lua_pushlightuserdata (mState scr) v, nbArgs := nbArgs scr + 1\<rparr>))"

text \<open>
  \<open>execute\<close> returns an \<open>int\<close>: the \<open>lua_Integer\<close> that \<open>lua_tointeger\<close> gives is narrowed
  to 32 bits by the assignment to \<open>res\<close>.
\<close>

definition execute :: "lua_lib \<Rightarrow> LuaScript \<Rightarrow> world \<Rightarrow> fault + (32 word \<times> LuaScript \<times> world)" where
  "execute lib scr w =
     (if \<not> nbArgs scr \<ge> 0 then Inl AssertionFailed
      else case lua_pcall lib (mState scr) w (nbArgs scr) 1 of
        Inl f \<Rightarrow> Inl f
      | Inr (res, L1, w1) \<Rightarrow>
          if res \<noteq> 0 \<or> \<not> lua_isnumber lib L1 1 then
            (case lua_tostring lib L1 1 of (s, L2) \<Rightarrow>
               Inr (0, \<lparr>mState = lua_pop L2 1, nbArgs = -1\<rparr>,
                    LOG LOG_WARN [S ''Failure while calling Lua function: error='', I res,
                                  S '', type='', S (lua_typename (lua_type L2 1)),
                                  S '', message='', S (case s of Some t \<Rightarrow> t | None \<Rightarrow> '''')] w1))
          else
            Inr (word_of_int (lua_tointeger lib L1 1),
                 \<lparr>mState = lua_pop L1 1, nbArgs = -1\<rparr>, w1))"

text \<open>
  \<open>loadScript\<close>, the loader registered for the engine name "lua". \<open>resman\<close> is
  \<open>ResourceManager::loadFile\<close>, which is not part of this file: it gives the content of
  the file, or \<open>None\<close> for the \<open>NULL\<close> it returns when there is no such file. The log of
  the world holds the lines that the code of this file writes.
\<close>

definition loadScript ::
  "lua_lib \<Rightarrow> (string \<Rightarrow> string option) \<Rightarrow> string \<Rightarrow> world \<Rightarrow> fault + (LuaScript option \<times> world)" where
  "loadScript lib resman filename w =
     (case resman filename of
        None \<Rightarrow> Inr (None, w)
      | Some buffer \<Rightarrow>
          (case luaL_newstate w of (s, w1) \<Rightarrow>
           case luaL_loadstring lib s buffer of (res, s1) \<Rightarrow>
             if res = 0 then
               (case LuaScript_ctor lib s1 (LOG LOG_INFO [S ''Successfully loaded script '', S filename] w1) of
                  Inl f \<Rightarrow> Inl f
                | Inr (scr, w2) \<Rightarrow> Inr (Some scr, w2))
             else if res = status_code LUA_ERRSYNTAX then
               Inr (None, lua_close (LOG LOG_ERROR [S ''Syntax error while loading script '', S filename] w1))
             else Inr (None, lua_close w1)))"

subsection \<open>The call in preparation, and a whole call\<close>

text \<open>
  The parts of the stack that \<open>execute\<close> hands to \<open>lua_pcall\<close>: the function below the
  \<open>nbArgs\<close> arguments on top, and what lies below the function. \<open>call_outcome\<close> is what
  calling that function on those arguments does.
\<close>

definition pending_base :: "LuaScript \<Rightarrow> lua_value list" where
  "pending_base scr =
     take (length (stack (mState scr)) - (nat (nbArgs scr) + 1)) (stack (mState scr))"

definition pending_function :: "LuaScript \<Rightarrow> lua_value" where
  "pending_function scr =
     stack (mState scr) ! (length (stack (mState scr)) - (nat (nbArgs scr) + 1))"

definition pending_args :: "LuaScript \<Rightarrow> lua_value list" where
  "pending_args scr =
     drop (length (stack (mState scr)) - (nat (nbArgs scr) + 1) + 1) (stack (mState scr))"

definition call_outcome :: "lua_lib \<Rightarrow> LuaScript \<Rightarrow> world \<Rightarrow> call_result \<times> lua_State \<times> world" where
  "call_outcome lib scr w =
     lua_call_value lib (pending_function scr) (pending_args scr)
       ((mState scr)\<lparr>stack := pending_base scr\<rparr>, w)"

text \<open>
  The two states of the call context. \<open>LuaScript\<close> addresses the result of a call by the
  absolute index 1, so outside a call its stack is empty, and during the preparation it
  holds the function and the arguments pushed so far and nothing else.
\<close>

definition is_reset :: "LuaScript \<Rightarrow> bool" where
  "is_reset scr = (nbArgs scr = -1 \<and> stack (mState scr) = [])"

definition is_preparing :: "LuaScript \<Rightarrow> bool" where
  "is_preparing scr = (0 \<le> nbArgs scr \<and> length (stack (mState scr)) = nat (nbArgs scr) + 1)"

definition is_numeric :: "lua_lib \<Rightarrow> lua_value \<Rightarrow> bool" where
  "is_numeric lib v =
     (case v of LNumber _ \<Rightarrow> True | LString s \<Rightarrow> str2number lib s \<noteq> None | _ \<Rightarrow> False)"

text \<open>The arguments a caller pushes, and the value each becomes in the interpreter.\<close>

datatype script_arg = IntArg "32 word" | ThingArg nat

fun arg_value :: "script_arg \<Rightarrow> lua_value" where
  "arg_value (IntArg v) = LNumber (sint v)"
| "arg_value (ThingArg p) = LLightUserData p"

fun push :: "LuaScript \<Rightarrow> script_arg \<Rightarrow> fault + LuaScript" where
  "push scr (IntArg v) = push_int scr v"
| "push scr (ThingArg p) = push_thing scr p"

fun push_all :: "LuaScript \<Rightarrow> script_arg list \<Rightarrow> fault + LuaScript" where
  "push_all scr [] = Inr scr"
| "push_all scr (a # as) = (case push scr a of Inl f \<Rightarrow> Inl f | Inr scr' \<Rightarrow> push_all scr' as)"

text \<open>The calling convention: \<open>prepare(name)\<close>, \<open>push\<close> for each argument, \<open>execute()\<close>.\<close>

definition call_function ::
  "lua_lib \<Rightarrow> LuaScript \<Rightarrow> string \<Rightarrow> script_arg list \<Rightarrow> world \<Rightarrow> fault + (32 word \<times> LuaScript \<times> world)" where
  "call_function lib scr name as w =
     (case prepare scr name of
        Inl f \<Rightarrow> Inl f
      | Inr scr1 \<Rightarrow>
          (case push_all scr1 as of
             Inl f \<Rightarrow> Inl f
           | Inr scr2 \<Rightarrow> execute lib scr2 w))"

text \<open>What the callbacks accept, read off an argument slot (\<open>None\<close>: no such argument).\<close>

definition points_to :: "world \<Rightarrow> ThingType \<Rightarrow> lua_value option \<Rightarrow> bool" where
  "points_to w ty v =
     (case v of
        Some (LLightUserData t) \<Rightarrow> (case things w t of Some th \<Rightarrow> getType th = ty | None \<Rightarrow> False)
      | _ \<Rightarrow> False)"

definition dangling :: "world \<Rightarrow> lua_value option \<Rightarrow> bool" where
  "dangling w v = (case v of Some (LLightUserData t) \<Rightarrow> things w t = None | _ \<Rightarrow> False)"

definition is_text :: "lua_value option \<Rightarrow> bool" where
  "is_text v = (case v of Some (LString _) \<Rightarrow> True | Some (LNumber _) \<Rightarrow> True | _ \<Rightarrow> False)"

section \<open>\<open>ItemManager\<close> (\<open>game-server/itemmanager.cpp\<close>)\<close>

text \<open>Decimal output of an integer, as a stream prints it.\<close>

fun dec_digits :: "nat \<Rightarrow> string" where
  "dec_digits n =
     (if n < 10 then [char_of (48 + n)] else dec_digits (n div 10) @ [char_of (48 + n mod 10)])"

declare dec_digits.simps [simp del]

definition show_int :: "int \<Rightarrow> string" where
  "show_int i = (if i < 0 then CHR ''-'' # dec_digits (nat (- i)) else dec_digits (nat i))"

datatype xmlNode =
  XmlNode (node_name: string) (node_props: "(string \<times> string) list") (node_children: "xmlNode list")

text \<open>A parsed document is its root element, if it has one.\<close>

type_synonym xmlDoc = "xmlNode option"

datatype AttackZoneShape = ATTZONESHAPE_CONE

record AttackZone =
  shape :: AttackZoneShape
  multiTarget :: bool
  range' :: int
  angle :: int

datatype mod_type = MOD_WEAPON_TYPE | MOD_WEAPON_RANGE | MOD_ELEMENT_TYPE | MOD_LIFETIME

datatype attribute =
    BASE_ATTR_PHY_ATK_MIN | BASE_ATTR_PHY_ATK_DELTA | BASE_ATTR_HP | BASE_ATTR_PHY_RES
  | CHAR_ATTR_STRENGTH | CHAR_ATTR_AGILITY | CHAR_ATTR_DEXTERITY | CHAR_ATTR_VITALITY
  | CHAR_ATTR_INTELLIGENCE | CHAR_ATTR_WILLPOWER

text \<open>\<open>ItemModifiers\<close> is kept as the setter calls made on it, in order.\<close>

datatype modifier = SetValue mod_type int | SetAttributeValue attribute int

text \<open>An item class; \<open>script\<close> is the file loaded into the script object it owns.\<close>

record ItemClass =
  databaseID :: int
  itemType :: int
  weight :: int
  cost :: int
  maxPerSlot :: int
  script :: "string option"
  modifiers :: "modifier list"
  spriteID :: int
  attackZone :: "AttackZone option"

text \<open>
  What the file uses and does not define: the resource manager (\<open>loadFile\<close>,
  \<open>file_exists\<close> for \<open>ResourceManager::exists\<close>), the XML parser, \<open>atoi\<close>, the two
  string-to-enum conversions, whether \<open>Script::create\<close> knows an engine name, the
  constructor of \<open>ItemClass\<close>, and the values of the enumerators it compares with.
\<close>

record item_env =
  loadFile :: "string \<Rightarrow> string option"
  xmlParseMemory :: "string \<Rightarrow> xmlDoc option"
  file_exists :: "string \<Rightarrow> bool"
  atoi :: "string \<Rightarrow> int"
  itemTypeFromString :: "string \<Rightarrow> int"
  weaponTypeFromString :: "string \<Rightarrow> int"
  Script_create :: "string \<Rightarrow> bool"
  new_ItemClass :: "int \<Rightarrow> int \<Rightarrow> ItemClass"
  ITEM_UNKNOWN :: int
  ITEM_UNUSABLE :: int
  ITEM_USABLE :: int
  ITEM_EQUIPMENT_ONE_HAND_WEAPON :: int
  ITEM_EQUIPMENT_TWO_HANDS_WEAPON :: int
  ITEM_EQUIPMENT_AMMO :: int
  ITEM_HAIRSPRITE :: int
  ITEM_RACESPRITE :: int
  WPNTYPE_NONE :: int

text \<open>The static variables of the file, and the lines it logs.\<close>

record ItemManager =
  itemClasses :: "int \<rightharpoonup> ItemClass"
  itemReferenceFile :: string
  itemDatabaseVersion :: "32 word"
  im_log :: "log_entry list"

definition IM_LOG :: "log_level \<Rightarrow> piece list \<Rightarrow> ItemManager \<Rightarrow> ItemManager" where
  "IM_LOG lvl ps im = im\<lparr>im_log := im_log im @ [(lvl, ps)]\<rparr>"

text \<open>\<open>XML::getProperty\<close>, with an \<open>int\<close> default and with a string default.\<close>

definition getProperty_int :: "item_env \<Rightarrow> xmlNode \<Rightarrow> string \<Rightarrow> int \<Rightarrow> int" where
  "getProperty_int env node name def =
     (case map_of (node_props node) name of Some v \<Rightarrow> atoi env v | None \<Rightarrow> def)"

definition getProperty_str :: "xmlNode \<Rightarrow> string \<Rightarrow> string \<Rightarrow> string" where
  "getProperty_str node name def =
     (case map_of (node_props node) name of Some v \<Rightarrow> v | None \<Rightarrow> def)"

text \<open>The modifiers one \<open>item\<close> element gives, in the order the loop body sets them.\<close>

definition read_modifiers :: "item_env \<Rightarrow> xmlNode \<Rightarrow> bool \<Rightarrow> int \<Rightarrow> modifier list" where
  "read_modifiers env node is_weapon weaponType =
     (if is_weapon
      then [SetValue MOD_WEAPON_TYPE weaponType,
            SetValue MOD_WEAPON_RANGE (getProperty_int env node ''range'' 0),
            SetValue MOD_ELEMENT_TYPE (getProperty_int env node ''element'' 0)]
      else []) @
     [SetValue MOD_LIFETIME (getProperty_int env node ''lifetime'' 0 * 10),
      SetAttributeValue BASE_ATTR_PHY_ATK_MIN (getProperty_int env node ''attack-min'' 0),
      SetAttributeValue BASE_ATTR_PHY_ATK_DELTA (getProperty_int env node ''attack-delta'' 0),
      SetAttributeValue BASE_ATTR_HP (getProperty_int env node ''hp'' 0),
      SetAttributeValue BASE_ATTR_PHY_RES (getProperty_int env node ''defense'' 0),
      SetAttributeValue CHAR_ATTR_STRENGTH (getProperty_int env node ''strength'' 0),
      SetAttributeValue CHAR_ATTR_AGILITY (getProperty_int env node ''agility'' 0),
      SetAttributeValue CHAR_ATTR_DEXTERITY (getProperty_int env node ''dexterity'' 0),
      SetAttributeValue CHAR_ATTR_VITALITY (getProperty_int env node ''vitality'' 0),
      SetAttributeValue CHAR_ATTR_INTELLIGENCE (getProperty_int env node ''intelligence'' 0),
      SetAttributeValue CHAR_ATTR_WILLPOWER (getProperty_int env node ''willpower'' 0)]"

text \<open>The attack zone of a weapon, with the warnings for an unknown shape or target.\<close>

definition read_attack_zone :: "int \<Rightarrow> string \<Rightarrow> string \<Rightarrow> int \<Rightarrow> int \<Rightarrow> ItemManager \<Rightarrow> AttackZone \<times> ItemManager" where
  "read_attack_zone item_id attackShape attackTarget attackRange attackAngle im =
     (let im1 = (if attackShape = ''cone'' then im
                 else IM_LOG LOG_WARN [S ''Item Manager: Unknown attack zone shape \"'', S attackShape,
                                       S ''\" for weapon '', I item_id, S '' in '', S (itemReferenceFile im),
                                       S ''.''] im);
          im2 = (if attackTarget = ''multi'' \<or> attackTarget = ''single'' then im1
                 else IM_LOG LOG_WARN [S ''Item Manager: Unknown target mode \"'', S attackTarget,
                                       S ''\" for weapon '', I item_id, S '' in '', S (itemReferenceFile im),
                                       S ''.''] im1)
      in (\<lparr>shape = ATTZONESHAPE_CONE,
           multiTarget = (attackTarget \<noteq> ''single''),
           range' = attackRange,
           angle = attackAngle\<rparr>, im2))"

text \<open>
  The body of the loop from the lookup in \<open>itemClasses\<close> on, for an \<open>item\<close> element with
  a nonzero id and a type that is kept. \<open>Script::create("lua")\<close> is called only when the
  script file exists, and its result is used unchecked: a null result is a null
  dereference. The setters write through the pointer stored in the table, so the
  updated class is stored back under its id.
\<close>

definition load_item_class ::
  "item_env \<Rightarrow> xmlNode \<Rightarrow> int \<Rightarrow> int \<Rightarrow> ItemManager \<Rightarrow> nat \<Rightarrow> fault + (ItemManager \<times> nat)" where
  "load_item_class env node item_id itemType0 im nbItems =
     (let item = (case itemClasses im item_id of
                    None \<Rightarrow> new_ItemClass env item_id itemType0
                  | Some i \<Rightarrow> i);
          weight0 = getProperty_int env node ''weight'' 0;
          val = getProperty_int env node ''value'' 0;
          maxPerSlot0 = getProperty_int env node ''max-per-slot'' 0;
          sprite = getProperty_int env node ''sprite_id'' 0;
          scriptName = getProperty_str node ''script_name'' '''';
          attackShape = getProperty_str node ''attack-shape'' ''cone'';
          attackTarget = getProperty_str node ''attack-target'' ''multi'';
          attackRange = getProperty_int env node ''attack-range'' 32;
          attackAngle = getProperty_int env node ''attack-angle'' 90;
          is_weapon0 = (itemType0 = ITEM_EQUIPMENT_ONE_HAND_WEAPON env \<or>
                        itemType0 = ITEM_EQUIPMENT_TWO_HANDS_WEAPON env);
          sWeaponType = getProperty_str node ''weapon-type'' '''';
          weaponType = weaponTypeFromString env sWeaponType;
          unknown_weapon = (is_weapon0 \<and> weaponType = WPNTYPE_NONE env);
          im1 = (if unknown_weapon
                 then IM_LOG LOG_WARN [S (itemReferenceFile im), S '': Unknown weapon type \"'',
                                       S sWeaponType, S ''\" for item #'', I item_id,
                                       S '' - treating it as generic item''] im
                 else im);
          itemType1 = (if unknown_weapon then ITEM_UNUSABLE env else itemType0);
          mods = read_modifiers env node is_weapon0 weaponType;
          im2 = (if maxPerSlot0 = 0
                 then IM_LOG LOG_WARN [S ''Item Manager: Missing max-per-slot property for item '',
                                       I item_id, S '' in '', S (itemReferenceFile im), S ''.''] im1
                 else im1);
          maxPerSlot1 = (if maxPerSlot0 = 0 then 1 else maxPerSlot0);
          is_equipment = (itemType1 > ITEM_USABLE env \<and> itemType1 < ITEM_EQUIPMENT_AMMO env \<and>
                          maxPerSlot1 \<noteq> 1);
          im3 = (if is_equipment
                 then IM_LOG LOG_WARN [S ''Item Manager: Setting max-per-slot property to 1 for equipment '',
                                       I item_id, S '' in '', S (itemReferenceFile im), S ''.''] im2
                 else im2);
          maxPerSlot2 = (if is_equipment then 1 else maxPerSlot1);
          im4 = (if weight0 = 0
                 then IM_LOG LOG_WARN [S ''Item Manager: Missing weight for item '',
                                       I item_id, S '' in '', S (itemReferenceFile im), S ''.''] im3
                 else im3);
          weight1 = (if weight0 = 0 then 1 else weight0);
          filename = ''scripts/items/'' @ show_int item_id @ ''.lua''
      in if file_exists env filename \<and> \<not> Script_create env ''lua'' then Inl NullDeref
         else
           (let im5 = (if file_exists env filename
                       then IM_LOG LOG_INFO [S (''Loading item script: '' @ filename)] im4
                       else im4);
                s = (if file_exists env filename then Some filename else None);
                item1 = item\<lparr>weight := weight1, cost := val, maxPerSlot := maxPerSlot2,
                             script := s, modifiers := mods,
                             spriteID := (if sprite \<noteq> 0 then sprite else item_id)\<rparr>;
                is_weapon1 = (itemType1 = ITEM_EQUIPMENT_ONE_HAND_WEAPON env \<or>
                              itemType1 = ITEM_EQUIPMENT_TWO_HANDS_WEAPON env);
                zone = read_attack_zone item_id attackShape attackTarget attackRange attackAngle im5;
                item2 = (if is_weapon1 then item1\<lparr>attackZone := Some (fst zone)\<rparr> else item1);
                im6 = (if is_weapon1 then snd zone else im5);
                im7 = IM_LOG LOG_DEBUG [S ''Item: ID: '', I item_id, S '', itemType: '', I itemType1,
                                        S '', weight: '', I weight1, S '', value: '', I val,
                                        S '', scriptName: '', S scriptName,
                                        S '', maxPerSlot: '', I maxPerSlot2, S ''.''] im6
            in Inr (im7\<lparr>itemClasses := (itemClasses im7)(item_id \<mapsto> item2)\<rparr>, nbItems + 1)))"

text \<open>One round of the loop over the children of the root element.\<close>

definition load_node :: "item_env \<Rightarrow> xmlNode \<Rightarrow> ItemManager \<times> nat \<Rightarrow> fault + (ItemManager \<times> nat)" where
  "load_node env node st =
     (case st of (im, nbItems) \<Rightarrow>
        if node_name node = ''version'' then
          (let revision = getProperty_str node ''revision'' '''';
               v = (word_of_int (atoi env revision) :: 32 word)
           in Inr (IM_LOG LOG_INFO [S ''Loading item database version '', I (uint v)]
                     (im\<lparr>itemDatabaseVersion := v\<rparr>), nbItems))
        else if node_name node \<noteq> ''item'' then Inr (im, nbItems)
        else
          (let item_id = getProperty_int env node ''id'' 0 in
           if item_id = 0 then
             Inr (IM_LOG LOG_WARN [S ''Item Manager: An (ignored) item has no ID in '',
                                   S (itemReferenceFile im), S ''!''] im, nbItems)
           else
             (let sItemType = getProperty_str node ''type'' '''';
                  t0 = itemTypeFromString env sItemType;
                  im1 = (if t0 = ITEM_UNKNOWN env
                         then IM_LOG LOG_WARN [S (itemReferenceFile im), S '': Unknown item type \"'',
                                               S sItemType, S ''\" for item #'', I item_id,
                                               S '' - treating it as \"generic\"''] im
                         else im);
                  t1 = (if t0 = ITEM_UNKNOWN env then ITEM_UNUSABLE env else t0)
              in if t1 = ITEM_HAIRSPRITE env \<or> t1 = ITEM_RACESPRITE env then Inr (im1, nbItems)
                 else load_item_class env node item_id t1 im1 nbItems)))"

fun load_nodes :: "item_env \<Rightarrow> xmlNode list \<Rightarrow> ItemManager \<times> nat \<Rightarrow> fault + (ItemManager \<times> nat)" where
  "load_nodes env [] st = Inr st"
| "load_nodes env (node # nodes) st =
     (case load_node env node st of Inl f \<Rightarrow> Inl f | Inr st' \<Rightarrow> load_nodes env nodes st')"

definition reload :: "item_env \<Rightarrow> ItemManager \<Rightarrow> fault + ItemManager" where
  "reload env im =
     (case loadFile env (itemReferenceFile im) of
        None \<Rightarrow>
          Inr (IM_LOG LOG_ERROR [S ''Item Manager: Could not find '', S (itemReferenceFile im), S ''!''] im)
      | Some data \<Rightarrow>
          (case xmlParseMemory env data of
             None \<Rightarrow>
               Inr (IM_LOG LOG_ERROR [S ''Item Manager: Error while parsing item database ('',
                                      S (itemReferenceFile im), S '')!''] im)
           | Some doc \<Rightarrow>
               (case doc of
                  None \<Rightarrow>
                    Inr (IM_LOG LOG_ERROR [S ''Item Manager: '', S (itemReferenceFile im),
                                           S '' is not a valid database file!''] im)
                | Some node \<Rightarrow>
                    if node_name node \<noteq> ''items'' then
                      Inr (IM_LOG LOG_ERROR [S ''Item Manager: '', S (itemReferenceFile im),
                                             S '' is not a valid database file!''] im)
                    else
                      (case load_nodes env (node_children node)
                              (IM_LOG LOG_INFO [S ''Loading item reference...''] im, 0) of
                         Inl f \<Rightarrow> Inl f
                       | Inr (im', nbItems) \<Rightarrow>
                           Inr (IM_LOG LOG_INFO [S ''Loaded '', I (int nbItems), S '' items from '',
                                                 S (itemReferenceFile im'), S ''.''] im')))))"

definition initialize :: "item_env \<Rightarrow> ItemManager \<Rightarrow> string \<Rightarrow> fault + ItemManager" where
  "initialize env im file = reload env (im\<lparr>itemReferenceFile := file\<rparr>)"

definition deinitialize :: "ItemManager \<Rightarrow> ItemManager" where
  "deinitialize im = im\<lparr>itemClasses := Map.empty\<rparr>"

text \<open>\<open>getItem\<close>: the class stored under the id, \<open>None\<close> for \<open>NULL\<close>.\<close>

definition getItem :: "ItemManager \<Rightarrow> int \<Rightarrow> ItemClass option" where
  "getItem im itemId = itemClasses im itemId"

definition GetDatabaseVersion :: "ItemManager \<Rightarrow> 32 word" where
  "GetDatabaseVersion im = itemDatabaseVersion im"

section \<open>\<open>AccountClient\<close> (\<open>account-server/accountclient.cpp\<close>)\<close>

text \<open>
  The client holds a pointer to its account (\<open>None\<close> for \<open>NULL\<close>) and deletes what it
  holds. The heap is the set of addresses at which an \<open>Account\<close> is allocated; \<open>delete\<close>
  of a null pointer does nothing, and \<open>delete\<close> of an address that holds no account is
  a fault.
\<close>

datatype client_status = CLIENT_LOGIN | CLIENT_OTHER nat

record AccountClient =
  status :: client_status
  mAccount :: "nat option"

definition AccountClient_ctor :: AccountClient where
  "AccountClient_ctor = \<lparr>status = CLIENT_LOGIN, mAccount = None\<rparr>"

definition unsetAccount :: "AccountClient \<times> nat set \<Rightarrow> fault + (AccountClient \<times> nat set)" where
  "unsetAccount ch =
     (case ch of (c, heap) \<Rightarrow>
        (case mAccount c of
           None \<Rightarrow> Inr (c\<lparr>mAccount := None\<rparr>, heap)
         | Some a \<Rightarrow>
             if a \<in> heap then Inr (c\<lparr>mAccount := None\<rparr>, heap - {a}) else Inl InvalidPointer))"

definition setAccount :: "AccountClient \<times> nat set \<Rightarrow> nat option \<Rightarrow> fault + (AccountClient \<times> nat set)" where
  "setAccount ch acc =
     (case unsetAccount ch of
        Inl f \<Rightarrow> Inl f
      | Inr (c, heap) \<Rightarrow> Inr (c\<lparr>mAccount := acc\<rparr>, heap))"

definition AccountClient_dtor :: "AccountClient \<times> nat set \<Rightarrow> fault + (AccountClient \<times> nat set)" where
  "AccountClient_dtor ch = unsetAccount ch"

section \<open>Concrete scripts, worlds and databases\<close>

text \<open>
  A small interpreter instance on which the theorems below are run. Its number
  conversions read and print plain decimal numerals. Its parser knows three sources:
  \<open>src_good\<close> defines \<open>onTalk\<close> (returns 1) and \<open>second\<close> (returns its second argument);
  \<open>src_partial\<close> defines \<open>onTalk\<close> and then calls an undefined function;
  \<open>src_tmw\<close> assigns 5 to the global \<open>tmw\<close>. Anything else is a syntax error.
  Function 3 raises an error and function 4 returns a string that is no numeral.
\<close>

definition dec_value :: "string \<Rightarrow> int option" where
  "dec_value s =
     (if s = [] \<or> \<not> list_all (\<lambda>c. 48 \<le> (of_char c :: nat) \<and> (of_char c :: nat) \<le> 57) s then None
      else Some (int (foldl (\<lambda>a c. 10 * a + (of_char c - 48)) 0 s)))"

definition src_good :: string where
  "src_good = ''function onTalk(npc, ch) return 1 end function second(a, b) return b end''"

definition src_partial :: string where
  "src_partial = ''function onTalk(npc, ch) return 1 end nosuch()''"

definition src_tmw :: string where
  "src_tmw = ''tmw = 5''"

definition demo_compile :: "string \<Rightarrow> (lua_status \<times> string) + nat" where
  "demo_compile src =
     (if src = src_good then Inr 0
      else if src = src_partial then Inr 2
      else if src = src_tmw then Inr 5
      else Inl (LUA_ERRSYNTAX, ''unexpected symbol''))"

definition demo_run ::
  "nat \<Rightarrow> lua_value list \<Rightarrow> lua_State \<times> world \<Rightarrow> call_result \<times> lua_State \<times> world" where
  "demo_run f args Lw =
     (case Lw of (L, w) \<Rightarrow>
        if f = 0 then
          (Returns [],
           L\<lparr>globals := (globals L)(''onTalk'' := LFunction 1, ''second'' := LFunction 6)\<rparr>, w)
        else if f = 1 then (Returns [LNumber 1], L, w)
        else if f = 2 then
          (Raises LUA_ERRRUN (LString ''attempt to call a nil value''),
           L\<lparr>globals := (globals L)(''onTalk'' := LFunction 1)\<rparr>, w)
        else if f = 3 then (Raises LUA_ERRRUN (LString ''attempt to index a nil value''), L, w)
        else if f = 4 then (Returns [LString ''hello''], L, w)
        else if f = 5 then (Returns [], L\<lparr>globals := (globals L)(''tmw'' := LNumber 5)\<rparr>, w)
        else if f = 6 then (Returns [if 1 < length args then args ! 1 else LNil], L, w)
        else (Returns [], L, w))"

definition demo_lib :: lua_lib where
  "demo_lib =
     \<lparr>run = demo_run, number2str = show_int, str2number = dec_value,
      compile = demo_compile, openlibs = (\<lambda>L. L)\<rparr>"

definition demo_files :: "string \<Rightarrow> string option" where
  "demo_files =
     [''scripts/good.lua'' \<mapsto> src_good,
      ''scripts/partial.lua'' \<mapsto> src_partial,
      ''scripts/tmw.lua'' \<mapsto> src_tmw,
      ''scripts/broken.lua'' \<mapsto> ''function (('']"

text \<open>A world with an NPC at address 100 and a character at address 200.\<close>

definition demo_world :: world where
  "demo_world =
     \<lparr>log = [], sent = [],
      things = [100 \<mapsto> \<lparr>getType = OBJECT_NPC, getPublicID = 7\<rparr>,
                200 \<mapsto> \<lparr>getType = OBJECT_CHARACTER, getPublicID = 3\<rparr>],
      lua_states = 0\<rparr>"

text \<open>The interpreter state after \<open>src_good\<close> was loaded, and the script object on it.\<close>

definition demo_state :: lua_State where
  "demo_state =
     \<lparr>stack = [],
      globals = (\<lambda>_. LNil)(''onTalk'' := LFunction 1, ''second'' := LFunction 6, ''tmw'' := LTable 0),
      loaded = (\<lambda>_. LNil)(''tmw'' := LTable 0),
      tables = (\<lambda>_ _. LNil)(0 := (\<lambda>_. LNil)(''msg_npc_message'' := LCFunction CB_NpcMessage,
                                             ''msg_npc_choice'' := LCFunction CB_NpcChoice)),
      next_table = 1\<rparr>"

definition demo_script :: LuaScript where
  "demo_script = \<lparr>mState = demo_state, nbArgs = -1\<rparr>"

text \<open>The arguments of a callback as its stack.\<close>

definition callback_frame :: "lua_value list \<Rightarrow> lua_State" where
  "callback_frame args = demo_state\<lparr>stack := args\<rparr>"

text \<open>An item database setting, and an item manager that holds one class.\<close>

definition demo_new_ItemClass :: "int \<Rightarrow> int \<Rightarrow> ItemClass" where
  "demo_new_ItemClass item_id t =
     \<lparr>databaseID = item_id, itemType = t, weight = 0, cost = 0, maxPerSlot = 0, script = None,
      modifiers = [], spriteID = 0, attackZone = None\<rparr>"

definition demo_env :: item_env where
  "demo_env =
     \<lparr>loadFile = [''items.xml'' \<mapsto> ''<items><item id=1 weight=5/></items>'',
                  ''broken.xml'' \<mapsto> ''<items'',
                  ''monsters.xml'' \<mapsto> ''<monsters/>''],
      xmlParseMemory =
        [''<items><item id=1 weight=5/></items>'' \<mapsto>
           Some (XmlNode ''items'' [] [XmlNode ''item'' [(''id'', ''1''), (''weight'', ''5'')] []]),
         ''<monsters/>'' \<mapsto> Some (XmlNode ''monsters'' [] [])],
      file_exists = (\<lambda>_. False),
      atoi = (\<lambda>s. case dec_value s of Some n \<Rightarrow> n | None \<Rightarrow> 0),
      itemTypeFromString = (\<lambda>s. if s = ''usable'' then 1 else 15),
      weaponTypeFromString = (\<lambda>_. 0),
      Script_create = (\<lambda>e. e = ''lua''),
      new_ItemClass = demo_new_ItemClass,
      ITEM_UNKNOWN = 15, ITEM_UNUSABLE = 0, ITEM_USABLE = 1,
      ITEM_EQUIPMENT_ONE_HAND_WEAPON = 2, ITEM_EQUIPMENT_TWO_HANDS_WEAPON = 3,
      ITEM_EQUIPMENT_AMMO = 12, ITEM_HAIRSPRITE = 13, ITEM_RACESPRITE = 14,
      WPNTYPE_NONE = 0\<rparr>"

definition demo_items :: "string \<Rightarrow> ItemManager" where
  "demo_items file =
     \<lparr>itemClasses = [7 \<mapsto> demo_new_ItemClass 7 1\<lparr>weight := 3\<rparr>],
      itemReferenceFile = file, itemDatabaseVersion = 4, im_log = []\<rparr>"

text \<open>A script object in the middle of a preparation: the function and the arguments
  pushed so far.\<close>

definition demo_prepared :: "lua_value \<Rightarrow> lua_value list \<Rightarrow> LuaScript" where
  "demo_prepared f args = \<lparr>mState = demo_state\<lparr>stack := f # args\<rparr>, nbArgs = int (length args)\<rparr>"

text \<open>A fresh interpreter state with chunk \<open>f\<close> on its stack, as \<open>loadScript\<close> hands it
  to the constructor.\<close>

definition demo_chunk_state :: "nat \<Rightarrow> lua_State" where
  "demo_chunk_state f = (fst (luaL_newstate demo_world))\<lparr>stack := [LFunction f]\<rparr>"

text \<open>A client that holds the account at address 5.\<close>

definition demo_client :: AccountClient where
  "demo_client = \<lparr>status = CLIENT_LOGIN, mAccount = Some 5\<rparr>"

section \<open>Properties of \<open>LuaScript\<close>\<close>

subsection \<open>Evaluation rules and auxiliary facts\<close>

lemmas lua_api_defs =
  index2adr_def lua_type_def lua_islightuserdata_def lua_touserdata_def lua_tolstring_def
  lua_tostring_def lua_isnumber_def lua_tointeger_def lua_pop_def lua_getglobal_def
  lua_pushinteger_def lua_pushlightuserdata_def lua_call_value_def adjust_results_def
  lua_pcall_def lua_typename_def LOG_def

lemmas demo_defs =
  demo_lib_def demo_run_def demo_state_def demo_script_def demo_world_def demo_prepared_def
  callback_frame_def

lemma show_int_42: "show_int 42 = ''42''"
  by code_simp

lemmas pending_defs = call_outcome_def pending_function_def pending_args_def pending_base_def

lemmas callback_defs =
  LuaMsg_NpcMessage_def LuaMsg_NpcChoice_def getNPC_def getCharacter_def c_str_def
  points_to_def dangling_def is_text_def

lemmas ctor_defs =
  LuaScript_ctor_def luaL_openlibs_def luaL_register_def register_into_def callbacks_def
  luaL_newstate_def luaL_loadstring_def lua_close_def loadScript_def

lemmas call_defs =
  call_function_def prepare_def push_int_def push_thing_def execute_def

lemma lua_pcall_preparing:
  "is_preparing scr \<Longrightarrow>
   lua_pcall lib (mState scr) w (nbArgs scr) n =
     (case call_outcome lib scr w of
        (Returns vs, L', w') \<Rightarrow> Inr (0, L'\<lparr>stack := adjust_results n vs\<rparr>, w')
      | (Raises st e, L', w') \<Rightarrow> Inr (status_code st, L'\<lparr>stack := [e]\<rparr>, w')
      | (Diverges, L', w') \<Rightarrow> Inl NoReturn
      | (Crashes, L', w') \<Rightarrow> Inl InvalidPointer)"
  by (auto simp: lua_pcall_def is_preparing_def call_outcome_def pending_base_def
      pending_function_def pending_args_def Let_def split: prod.splits call_result.splits)

lemma status_code_nonzero: "status_code st \<noteq> 0"
  by (cases st) auto

lemma lua_tostring_length: "length (stack (snd (lua_tostring lib L i))) = length (stack L)"
  by (auto simp: lua_tostring_def lua_tolstring_def split: option.splits lua_value.splits)

lemma lua_pop_one: "length (stack L) = Suc 0 \<Longrightarrow> stack (lua_pop L (Suc 0)) = []"
  by (simp add: lua_pop_def)

lemma lua_isnumber_single: "lua_isnumber lib (L\<lparr>stack := [v]\<rparr>) (Suc 0) = is_numeric lib v"
  by (simp add: lua_isnumber_def is_numeric_def index2adr_def split: lua_value.splits)

lemma adjust_results_one: "adjust_results (Suc 0) vs = [hd (adjust_results (Suc 0) vs)]"
  by (cases vs) (simp_all add: adjust_results_def)

lemma execute_failure:
  assumes "0 \<le> nbArgs scr" and "lua_pcall lib (mState scr) w (nbArgs scr) 1 = Inr (res, L1, w1)"
    and "res \<noteq> 0 \<or> \<not> lua_isnumber lib L1 1" and "length (stack L1) = 1"
  shows "\<exists>scr' ps. execute lib scr w =
           Inr (0, scr', LOG LOG_WARN (S ''Failure while calling Lua function: error='' # ps) w1)
         \<and> is_reset scr'"
proof -
  obtain s L2 where t: "lua_tostring lib L1 1 = (s, L2)"
    by (cases "lua_tostring lib L1 1") auto
  have "length (stack L2) = Suc 0" using lua_tostring_length[of lib L1 1] t assms(4) by simp
  then have e: "stack (lua_pop L2 (Suc 0)) = []" by (rule lua_pop_one)
  have "execute lib scr w =
      Inr (0, \<lparr>mState = lua_pop L2 1, nbArgs = -1\<rparr>,
           LOG LOG_WARN (S ''Failure while calling Lua function: error='' #
             [I res, S '', type='', S (lua_typename (lua_type L2 1)),
              S '', message='', S (case s of Some t \<Rightarrow> t | None \<Rightarrow> [])]) w1)"
    using assms(1,2,3) t by (auto simp: execute_def)
  moreover have "is_reset \<lparr>mState = lua_pop L2 1, nbArgs = -1\<rparr>"
    using e by (simp add: is_reset_def)
  ultimately show ?thesis by blast
qed

lemma execute_raises:
  assumes "is_preparing scr" "call_outcome lib scr w = (Raises st e, L', w')"
  shows "\<exists>scr' ps. execute lib scr w =
           Inr (0, scr', LOG LOG_WARN (S ''Failure while calling Lua function: error='' # ps) w')
         \<and> is_reset scr'"
proof (rule execute_failure)
  show "0 \<le> nbArgs scr" using assms(1) by (simp add: is_preparing_def)
  show "lua_pcall lib (mState scr) w (nbArgs scr) 1 = Inr (status_code st, L'\<lparr>stack := [e]\<rparr>, w')"
    using assms(2) by (simp add: lua_pcall_preparing[OF assms(1)])
  show "status_code st \<noteq> 0 \<or> \<not> lua_isnumber lib (L'\<lparr>stack := [e]\<rparr>) 1"
    by (simp add: status_code_nonzero)
  show "length (stack (L'\<lparr>stack := [e]\<rparr>)) = 1" by simp
qed

lemma execute_not_numeric:
  assumes "is_preparing scr" "call_outcome lib scr w = (Returns vs, L', w')"
    "\<not> is_numeric lib (hd (adjust_results 1 vs))"
  shows "\<exists>scr' ps. execute lib scr w =
           Inr (0, scr', LOG LOG_WARN (S ''Failure while calling Lua function: error='' # ps) w')
         \<and> is_reset scr'"
proof (rule execute_failure)
  have a: "adjust_results (Suc 0) vs = [hd (adjust_results (Suc 0) vs)]" by (rule adjust_results_one)
  show "0 \<le> nbArgs scr" using assms(1) by (simp add: is_preparing_def)
  show "lua_pcall lib (mState scr) w (nbArgs scr) 1 = Inr (0, L'\<lparr>stack := adjust_results 1 vs\<rparr>, w')"
    using assms(2) by (simp add: lua_pcall_preparing[OF assms(1)])
  show "0 \<noteq> (0::int) \<or> \<not> lua_isnumber lib (L'\<lparr>stack := adjust_results 1 vs\<rparr>) 1"
    using assms(3) a lua_isnumber_single[where lib = lib and L = "L'" and v = "hd (adjust_results (Suc 0) vs)"] by simp
  show "length (stack (L'\<lparr>stack := adjust_results 1 vs\<rparr>)) = 1"
    using a by (simp add: adjust_results_def)
qed

lemma call_outcome_nil:
  "pending_function scr = LNil \<Longrightarrow>
   call_outcome lib scr w =
     (Raises LUA_ERRRUN (LString ''attempt to call a nil value''),
      (mState scr)\<lparr>stack := pending_base scr\<rparr>, w)"
  by (simp add: call_outcome_def lua_call_value_def)

lemma execute_numeric:
  assumes "is_preparing scr" "call_outcome lib scr w = (Returns vs, L', w')"
    "hd (adjust_results 1 vs) = LNumber k"
  shows "execute lib scr w = Inr (word_of_int k, \<lparr>mState = L'\<lparr>stack := []\<rparr>, nbArgs = -1\<rparr>, w')"
proof -
  have a: "adjust_results (Suc 0) vs = [LNumber k]" using adjust_results_one[of vs] assms(3) by simp
  have "0 \<le> nbArgs scr" using assms(1) by (simp add: is_preparing_def)
  then show ?thesis
    using assms(2) a
    by (simp add: execute_def lua_pcall_preparing[OF assms(1)] lua_isnumber_def index2adr_def
        lua_tointeger_def lua_pop_def)
qed

lemma execute_returns_reset:
  assumes "is_preparing scr" "call_outcome lib scr w = (Returns vs, L', w')"
  shows "\<exists>r1 scr1 w1. execute lib scr w = Inr (r1, scr1, w1) \<and> is_reset scr1"
proof (cases "is_numeric lib (hd (adjust_results 1 vs))")
  case True
  have n: "0 \<le> nbArgs scr" using assms(1) by (simp add: is_preparing_def)
  have l: "adjust_results (Suc 0) vs = [hd (adjust_results (Suc 0) vs)]" by (rule adjust_results_one)
  have "lua_isnumber lib (L'\<lparr>stack := adjust_results (Suc 0) vs\<rparr>) (Suc 0)"
    using True l lua_isnumber_single[where lib = lib and L = "L'" and v = "hd (adjust_results (Suc 0) vs)"] by simp
  moreover have "length (adjust_results (Suc 0) vs) = Suc 0" by (simp add: adjust_results_def)
  ultimately show ?thesis using assms(2) n
    by (simp add: execute_def lua_pcall_preparing[OF assms(1)] is_reset_def lua_pop_def)
next
  case False
  from execute_not_numeric[OF assms False] show ?thesis by blast
qed

lemma push_all_preparing:
  "0 \<le> nbArgs scr \<Longrightarrow>
   push_all scr as =
     Inr (scr\<lparr>mState := (mState scr)\<lparr>stack := stack (mState scr) @ map arg_value as\<rparr>,
              nbArgs := nbArgs scr + int (length as)\<rparr>)"
proof (induction as arbitrary: scr)
  case Nil
  then show ?case by simp
next
  case (Cons a as)
  show ?case
  proof (cases a)
    case (IntArg v)
    with Cons show ?thesis
      by (simp add: push_int_def lua_pushinteger_def add.assoc)
  next
    case (ThingArg p)
    with Cons show ?thesis
      by (simp add: push_thing_def lua_pushlightuserdata_def add.assoc)
  qed
qed

lemma prepare_push_all:
  assumes "is_reset scr"
  shows "prepare scr name = Inr (scr\<lparr>mState := (mState scr)\<lparr>stack := [globals (mState scr) name]\<rparr>, nbArgs := 0\<rparr>)"
    and "push_all (scr\<lparr>mState := (mState scr)\<lparr>stack := [globals (mState scr) name]\<rparr>, nbArgs := 0\<rparr>) as =
     Inr (scr\<lparr>mState := (mState scr)\<lparr>stack := globals (mState scr) name # map arg_value as\<rparr>,
              nbArgs := int (length as)\<rparr>)"
  using assms by (simp_all add: is_reset_def prepare_def lua_getglobal_def push_all_preparing)

subsection \<open>The call context after \<open>execute\<close>\<close>

text \<open>
  Claim C2. Whenever \<open>execute\<close> returns, the argument counter is \<open>-1\<close> again ("no call
  prepared"), whatever the call did: the first part holds for every state of the script
  object and every behaviour of the interpreter. The second part says that it does
  return: from a state in preparation, unless the called function never ends or
  crashes the process, \<open>execute\<close> returns and leaves the object in the reset state
  (counter \<open>-1\<close>, empty stack).
\<close>

theorem execute_resets_call_context:
  "(execute lib scr w = Inr (r, scr', w') \<longrightarrow> nbArgs scr' = -1) \<and>
   (is_preparing scr \<and> fst (call_outcome lib scr w) \<noteq> Diverges \<and>
    fst (call_outcome lib scr w) \<noteq> Crashes \<longrightarrow>
      (\<exists>r1 scr1 w1. execute lib scr w = Inr (r1, scr1, w1) \<and> is_reset scr1))"
proof (intro conjI impI)
  assume "execute lib scr w = Inr (r, scr', w')"
  then show "nbArgs scr' = -1"
    by (auto simp: execute_def split: if_splits sum.splits prod.splits)
next
  assume a: "is_preparing scr \<and> fst (call_outcome lib scr w) \<noteq> Diverges \<and>
    fst (call_outcome lib scr w) \<noteq> Crashes"
  then have p: "is_preparing scr" by simp
  obtain c L' w' where c: "call_outcome lib scr w = (c, L', w')"
    by (cases "call_outcome lib scr w") auto
  show "\<exists>r1 scr1 w1. execute lib scr w = Inr (r1, scr1, w1) \<and> is_reset scr1"
  proof (cases c)
    case (Returns vs)
    with c have "call_outcome lib scr w = (Returns vs, L', w')" by simp
    from execute_returns_reset[OF p this] show ?thesis by blast
  next
    case (Raises st e)
    with c have "call_outcome lib scr w = (Raises st e, L', w')" by simp
    from execute_raises[OF p this] show ?thesis by blast
  next
    case Diverges with a c show ?thesis by simp
  next
    case Crashes with a c show ?thesis by simp
  qed
qed

text \<open>The theorem at a call of \<open>onTalk\<close> with two entity arguments.\<close>

theorem execute_resets_call_context_witness:
  "is_preparing (demo_prepared (LFunction 1) [LLightUserData 100, LLightUserData 200]) \<and>
   fst (call_outcome demo_lib (demo_prepared (LFunction 1) [LLightUserData 100, LLightUserData 200])
          demo_world) = Returns [LNumber 1] \<and>
   (case execute demo_lib (demo_prepared (LFunction 1) [LLightUserData 100, LLightUserData 200])
           demo_world of
      Inr (r, scr', w') \<Rightarrow> r = 1 \<and> nbArgs scr' = -1 \<and> is_reset scr'
    | Inl f \<Rightarrow> False)"
proof -
  let ?s = "demo_prepared (LFunction 1) [LLightUserData 100, LLightUserData 200]"
  have p: "is_preparing ?s" by (simp add: is_preparing_def demo_prepared_def)
  have o: "fst (call_outcome demo_lib ?s demo_world) = Returns [LNumber 1]"
    by (simp add: call_outcome_def pending_function_def pending_args_def pending_base_def
        lua_call_value_def demo_defs)
  have "\<exists>r1 scr1 w1. execute demo_lib ?s demo_world = Inr (r1, scr1, w1) \<and> is_reset scr1"
    using execute_resets_call_context[where lib = demo_lib and scr = ?s and w = demo_world] p o
    by simp
  then obtain r scr' w' where e: "execute demo_lib ?s demo_world = Inr (r, scr', w')" "is_reset scr'"
    by blast
  have n: "nbArgs scr' = -1"
    using execute_resets_call_context[where lib = demo_lib and scr = ?s and w = demo_world
        and r = r and scr' = scr' and w' = w'] e(1) by simp
  have "execute demo_lib ?s demo_world = Inr (1, demo_script, demo_world)"
    by (simp add: execute_def lua_api_defs demo_defs)
  with e n p o show ?thesis by simp
qed

subsection \<open>Call errors\<close>

text \<open>
  Claim C3. When the call in preparation fails, \<open>execute\<close> returns 0 and writes one
  warning to the log, and it returns normally (no fault): this holds when the prepared
  name was unresolved (\<open>prepare\<close> pushed \<open>nil\<close> as the function), when the interpreter
  raises an error in the call, and when the call returns a first result that is not
  numeric (no number and no string that converts to one). \<open>w'\<close> is the world as the
  call left it; the script object is back in the reset state.
\<close>

theorem execute_call_error_returns_zero:
  assumes "is_preparing scr" and "call_outcome lib scr w = (c, L', w')"
    and "pending_function scr = LNil \<or> (\<exists>st e. c = Raises st e) \<or>
         (\<exists>vs. c = Returns vs \<and> \<not> is_numeric lib (hd (adjust_results 1 vs)))"
  shows "\<exists>scr' ps. execute lib scr w =
           Inr (0, scr', LOG LOG_WARN (S ''Failure while calling Lua function: error='' # ps) w')
         \<and> is_reset scr'"
proof -
  consider (nil) "pending_function scr = LNil" | (err) st e where "c = Raises st e"
    | (ret) vs where "c = Returns vs" "\<not> is_numeric lib (hd (adjust_results 1 vs))"
    using assms(3) by blast
  then show ?thesis
  proof cases
    case nil
    with assms(2) have "call_outcome lib scr w = (Raises LUA_ERRRUN (LString ''attempt to call a nil value''), L', w')"
      by (simp add: call_outcome_nil)
    then show ?thesis by (rule execute_raises[OF assms(1)])
  next
    case err
    with assms(2) have "call_outcome lib scr w = (Raises st e, L', w')" by simp
    then show ?thesis by (rule execute_raises[OF assms(1)])
  next
    case ret
    with assms(2) have "call_outcome lib scr w = (Returns vs, L', w')" by simp
    then show ?thesis using ret(2) by (rule execute_not_numeric[OF assms(1)])
  qed
qed

text \<open>The three kinds of call error on the concrete interpreter, with the logged line.\<close>

theorem execute_call_error_returns_zero_witness:
  "is_preparing (demo_prepared LNil [LNumber 7]) \<and>
   pending_function (demo_prepared LNil [LNumber 7]) = LNil \<and>
   is_preparing (demo_prepared (LFunction 3) []) \<and>
   fst (call_outcome demo_lib (demo_prepared (LFunction 3) []) demo_world) =
     Raises LUA_ERRRUN (LString ''attempt to index a nil value'') \<and>
   is_preparing (demo_prepared (LFunction 4) []) \<and>
   fst (call_outcome demo_lib (demo_prepared (LFunction 4) []) demo_world) =
     Returns [LString ''hello''] \<and>
   \<not> is_numeric demo_lib (hd (adjust_results 1 [LString ''hello''])) \<and>
   (case execute demo_lib (demo_prepared LNil [LNumber 7]) demo_world of
      Inr (r, scr', w') \<Rightarrow>
        r = 0 \<and> is_reset scr' \<and>
        log w' = [(LOG_WARN, [S ''Failure while calling Lua function: error='', I 2,
                              S '', type='', S ''string'',
                              S '', message='', S ''attempt to call a nil value''])]
    | Inl f \<Rightarrow> False) \<and>
   (case execute demo_lib (demo_prepared (LFunction 3) []) demo_world of
      Inr (r, scr', w') \<Rightarrow>
        r = 0 \<and> is_reset scr' \<and>
        log w' = [(LOG_WARN, [S ''Failure while calling Lua function: error='', I 2,
                              S '', type='', S ''string'',
                              S '', message='', S ''attempt to index a nil value''])]
    | Inl f \<Rightarrow> False) \<and>
   (case execute demo_lib (demo_prepared (LFunction 4) []) demo_world of
      Inr (r, scr', w') \<Rightarrow>
        r = 0 \<and> is_reset scr' \<and>
        log w' = [(LOG_WARN, [S ''Failure while calling Lua function: error='', I 0,
                              S '', type='', S ''string'',
                              S '', message='', S ''hello''])]
    | Inl f \<Rightarrow> False)"
proof -
  let ?a = "demo_prepared LNil [LNumber 7]"
  let ?b = "demo_prepared (LFunction 3) []"
  let ?c = "demo_prepared (LFunction 4) []"
  have pa: "is_preparing ?a" and pb: "is_preparing ?b" and pc: "is_preparing ?c"
    by (simp_all add: is_preparing_def demo_prepared_def)
  have na: "pending_function ?a = LNil" by (simp add: pending_defs demo_defs)
  have ob: "call_outcome demo_lib ?b demo_world =
      (Raises LUA_ERRRUN (LString ''attempt to index a nil value''), demo_state, demo_world)"
    by (simp add: pending_defs lua_call_value_def demo_defs)
  have oc: "call_outcome demo_lib ?c demo_world = (Returns [LString ''hello''], demo_state, demo_world)"
    by (simp add: pending_defs lua_call_value_def demo_defs)
  have nc: "\<not> is_numeric demo_lib (hd (adjust_results 1 [LString ''hello'']))"
    by (simp add: is_numeric_def adjust_results_def demo_lib_def dec_value_def)
  have oa: "call_outcome demo_lib ?a demo_world =
      (Raises LUA_ERRRUN (LString ''attempt to call a nil value''), demo_state, demo_world)"
    by (simp add: pending_defs lua_call_value_def demo_defs)
  have ea: "\<exists>scr' ps. execute demo_lib ?a demo_world =
      Inr (0, scr', LOG LOG_WARN (S ''Failure while calling Lua function: error='' # ps) demo_world)
      \<and> is_reset scr'"
    using execute_call_error_returns_zero[OF pa oa] na by blast
  have eb: "\<exists>scr' ps. execute demo_lib ?b demo_world =
      Inr (0, scr', LOG LOG_WARN (S ''Failure while calling Lua function: error='' # ps) demo_world)
      \<and> is_reset scr'"
    using execute_call_error_returns_zero[OF pb ob] by blast
  have ec: "\<exists>scr' ps. execute demo_lib ?c demo_world =
      Inr (0, scr', LOG LOG_WARN (S ''Failure while calling Lua function: error='' # ps) demo_world)
      \<and> is_reset scr'"
    using execute_call_error_returns_zero[OF pc oc] nc by blast
  have va: "execute demo_lib ?a demo_world =
      Inr (0, demo_script, LOG LOG_WARN [S ''Failure while calling Lua function: error='', I 2,
                              S '', type='', S ''string'',
                              S '', message='', S ''attempt to call a nil value''] demo_world)"
    by (simp add: execute_def lua_api_defs demo_defs)
  have vb: "execute demo_lib ?b demo_world =
      Inr (0, demo_script, LOG LOG_WARN [S ''Failure while calling Lua function: error='', I 2,
                              S '', type='', S ''string'',
                              S '', message='', S ''attempt to index a nil value''] demo_world)"
    by (simp add: execute_def lua_api_defs demo_defs)
  have vc: "execute demo_lib ?c demo_world =
      Inr (0, demo_script, LOG LOG_WARN [S ''Failure while calling Lua function: error='', I 0,
                              S '', type='', S ''string'',
                              S '', message='', S ''hello''] demo_world)"
    by (simp add: execute_def lua_api_defs demo_defs dec_value_def)
  have r: "is_reset demo_script" by (simp add: is_reset_def demo_defs)
  show ?thesis
    using ea eb ec pa pb pc na ob oc nc r
    unfolding va vb vc
    by (simp add: LOG_def demo_world_def)
qed

subsection \<open>A whole call\<close>

text \<open>
  Claim C4. On a script object in the reset state whose global \<open>name\<close> is a function,
  the sequence \<open>prepare(name)\<close>, \<open>push\<close> of each argument in turn, \<open>execute()\<close> runs that
  function on the pushed arguments in push order, and when the function returns the
  integer \<open>n\<close> (any value of the C type \<open>int\<close>) as its first result, \<open>execute\<close>
  returns exactly \<open>n\<close>.
\<close>

theorem call_function_returns_result:
  assumes "is_reset scr" and "globals (mState scr) name = LFunction f"
    and "run lib f (map arg_value as) (mState scr, w) = (Returns (LNumber (sint n) # rest), L', w')"
  shows "call_function lib scr name as w = Inr (n, \<lparr>mState = L'\<lparr>stack := []\<rparr>, nbArgs = -1\<rparr>, w')"
proof -
  define scr2 where "scr2 = scr\<lparr>mState := (mState scr)\<lparr>stack := LFunction f # map arg_value as\<rparr>,
              nbArgs := int (length as)\<rparr>"
  have c: "call_function lib scr name as w = execute lib scr2 w"
    using prepare_push_all(1)[OF assms(1), where name = name]
      prepare_push_all(2)[OF assms(1), where name = name and as = as] assms(2)
    by (simp add: call_function_def scr2_def)
  have p: "is_preparing scr2" by (simp add: is_preparing_def scr2_def)
  have s: "(mState scr)\<lparr>stack := []\<rparr> = mState scr" using assms(1) by (simp add: is_reset_def)
  have o: "call_outcome lib scr2 w = (Returns (LNumber (sint n) # rest), L', w')"
    using assms(3) s
    by (simp add: call_outcome_def pending_function_def pending_args_def pending_base_def
        scr2_def lua_call_value_def)
  have "execute lib scr2 w = Inr (word_of_int (sint n), \<lparr>mState = L'\<lparr>stack := []\<rparr>, nbArgs = -1\<rparr>, w')"
    by (rule execute_numeric[OF p o]) (simp add: adjust_results_def)
  with c show ?thesis by simp
qed

text \<open>
  \<open>second\<close> returns its second argument, so the order of the pushes shows in the
  result; \<open>onTalk\<close> with an NPC and a character returns 1.
\<close>

theorem call_function_returns_result_witness:
  "is_reset demo_script \<and>
   globals (mState demo_script) ''second'' = LFunction 6 \<and>
   run demo_lib 6 (map arg_value [IntArg 7, IntArg 9]) (mState demo_script, demo_world) =
     (Returns [LNumber (sint (9 :: 32 word))], demo_state, demo_world) \<and>
   call_function demo_lib demo_script ''second'' [IntArg 7, IntArg 9] demo_world =
     Inr (9, demo_script, demo_world) \<and>
   globals (mState demo_script) ''onTalk'' = LFunction 1 \<and>
   run demo_lib 1 (map arg_value [ThingArg 100, ThingArg 200]) (mState demo_script, demo_world) =
     (Returns [LNumber (sint (1 :: 32 word))], demo_state, demo_world) \<and>
   call_function demo_lib demo_script ''onTalk'' [ThingArg 100, ThingArg 200] demo_world =
     Inr (1, demo_script, demo_world)"
proof -
  have r: "is_reset demo_script" by (simp add: is_reset_def demo_defs)
  have g: "globals (mState demo_script) ''second'' = LFunction 6"
    and g': "globals (mState demo_script) ''onTalk'' = LFunction 1"
    by (simp_all add: demo_defs)
  have u: "run demo_lib 6 (map arg_value [IntArg 7, IntArg 9]) (mState demo_script, demo_world) =
     (Returns (LNumber (sint (9 :: 32 word)) # []), demo_state, demo_world)"
    by (simp add: demo_defs)
  have u': "run demo_lib 1 (map arg_value [ThingArg 100, ThingArg 200]) (mState demo_script, demo_world) =
     (Returns (LNumber (sint (1 :: 32 word)) # []), demo_state, demo_world)"
    by (simp add: demo_defs)
  have s: "\<lparr>mState = demo_state\<lparr>stack := []\<rparr>, nbArgs = -1\<rparr> = demo_script"
    by (simp add: demo_defs)
  show ?thesis
    using call_function_returns_result[OF r g u] call_function_returns_result[OF r g' u'] r g g' u u'
    by (simp add: s)
qed

subsection \<open>Misuse of the calling convention\<close>

text \<open>
  Claim C5. \<open>push\<close> (of an integer or of an entity) and \<open>execute\<close> while no call is in
  preparation, and \<open>prepare\<close> while one is, fail their assertion: the operation stops with
  \<open>AssertionFailed\<close> and returns no new state.
\<close>

theorem misuse_is_rejected:
  "(nbArgs scr = -1 \<longrightarrow>
      push_int scr v = Inl AssertionFailed \<and> push_thing scr t = Inl AssertionFailed \<and>
      execute lib scr w = Inl AssertionFailed) \<and>
   (0 \<le> nbArgs scr \<longrightarrow> prepare scr name = Inl AssertionFailed)"
  by (simp add: push_int_def push_thing_def execute_def prepare_def)

text \<open>Both kinds of misuse on the concrete script object.\<close>

theorem misuse_is_rejected_witness:
  "nbArgs demo_script = -1 \<and>
   push_int demo_script 5 = Inl AssertionFailed \<and>
   push_thing demo_script 100 = Inl AssertionFailed \<and>
   execute demo_lib demo_script demo_world = Inl AssertionFailed \<and>
   0 \<le> nbArgs (demo_prepared (LFunction 1) []) \<and>
   prepare (demo_prepared (LFunction 1) []) ''onTalk'' = Inl AssertionFailed"
proof -
  have a: "nbArgs demo_script = -1" by (simp add: demo_defs)
  have b: "0 \<le> nbArgs (demo_prepared (LFunction 1) [])" by (simp add: demo_defs)
  show ?thesis
    using misuse_is_rejected[where scr = demo_script and v = 5 and t = 100 and lib = demo_lib
        and w = demo_world]
      misuse_is_rejected[where scr = "demo_prepared (LFunction 1) []" and name = "''onTalk''"]
      a b
    by simp
qed

section \<open>Properties of the native callbacks\<close>

lemma getNPC_valid:
  "\<not> dangling w (index2adr s p) \<Longrightarrow>
   getNPC w s p = Inr (if points_to w OBJECT_NPC (index2adr s p) then lua_touserdata s p else None)"
  by (auto simp: getNPC_def lua_islightuserdata_def lua_type_def lua_touserdata_def
      dangling_def points_to_def split: option.splits lua_value.splits)

lemma getCharacter_valid:
  "\<not> dangling w (index2adr s p) \<Longrightarrow>
   getCharacter w s p =
     Inr (if points_to w OBJECT_CHARACTER (index2adr s p) then lua_touserdata s p else None)"
  by (auto simp: getCharacter_def lua_islightuserdata_def lua_type_def lua_touserdata_def
      dangling_def points_to_def split: option.splits lua_value.splits)

lemma lua_tolstring_None: "fst (lua_tolstring lib s i) = None \<longleftrightarrow> \<not> is_text (index2adr s i)"
  by (auto simp: lua_tolstring_def is_text_def split: option.splits lua_value.splits)

lemma wrong_arguments_None:
  assumes "\<not> points_to w OBJECT_NPC (index2adr s 1) \<or>
           \<not> points_to w OBJECT_CHARACTER (index2adr s 2) \<or> \<not> is_text (index2adr s 3)"
  shows "(if points_to w OBJECT_NPC (index2adr s 1) then lua_touserdata s 1 else None) = None \<or>
         (if points_to w OBJECT_CHARACTER (index2adr s 2) then lua_touserdata s 2 else None) = None \<or>
         fst (lua_tolstring lib s 3) = None"
  using assms by (auto simp: lua_tolstring_None)

subsection \<open>Arguments of the wrong shape\<close>

text \<open>
  Claim C7, as the code has it. Both callbacks expect an NPC, a character and a text.
  When every light userdata among the first two arguments points to a live object, and
  the first argument is not a pointer to an NPC, or the second is not a pointer to a
  character, or the third is neither a string nor a number (or is missing), then the
  callback returns normally with no result for the script, the world is changed only by
  one warning that names the callback (so no message is built or sent), and no error is
  raised into the interpreter. A number as third argument is not a mismatch for the
  code: \<open>lua_tolstring\<close> converts it.
\<close>

theorem callback_rejects_wrong_arguments:
  assumes "\<not> dangling w (index2adr s 1)" and "\<not> dangling w (index2adr s 2)"
    and "\<not> points_to w OBJECT_NPC (index2adr s 1) \<or>
         \<not> points_to w OBJECT_CHARACTER (index2adr s 2) \<or> \<not> is_text (index2adr s 3)"
  shows "LuaMsg_NpcMessage lib s w =
           Inr (0, snd (lua_tolstring lib s 3),
                w\<lparr>log := log w @ [(LOG_WARN, [S ''LuaMsg_NpcMessage called with incorrect parameters.''])]\<rparr>)
       \<and> LuaMsg_NpcChoice lib s w =
           Inr (0, snd (lua_tolstring lib s 3),
                w\<lparr>log := log w @ [(LOG_WARN, [S ''LuaMsg_NpcChoice called with incorrect parameters.''])]\<rparr>)"
proof -
  obtain m s' where t: "lua_tolstring lib s 3 = (m, s')" by (cases "lua_tolstring lib s 3") auto
  have n: "(if points_to w OBJECT_NPC (index2adr s 1) then lua_touserdata s 1 else None) = None \<or>
         (if points_to w OBJECT_CHARACTER (index2adr s 2) then lua_touserdata s 2 else None) = None \<or>
         m = None"
    using wrong_arguments_None[OF assms(3), of lib] t by simp
  show ?thesis
    unfolding LuaMsg_NpcMessage_def LuaMsg_NpcChoice_def getNPC_valid[OF assms(1)]
      getCharacter_valid[OF assms(2)] t
    using n by (simp add: LOG_def)
qed

text \<open>A number where the NPC is expected, and a call without the text.\<close>

theorem callback_rejects_wrong_arguments_witness:
  "\<not> dangling demo_world (index2adr (callback_frame [LNumber 5, LLightUserData 200, LString ''hi'']) 1) \<and>
   \<not> dangling demo_world (index2adr (callback_frame [LNumber 5, LLightUserData 200, LString ''hi'']) 2) \<and>
   \<not> points_to demo_world OBJECT_NPC
        (index2adr (callback_frame [LNumber 5, LLightUserData 200, LString ''hi'']) 1) \<and>
   LuaMsg_NpcMessage demo_lib (callback_frame [LNumber 5, LLightUserData 200, LString ''hi'']) demo_world =
     Inr (0, callback_frame [LNumber 5, LLightUserData 200, LString ''hi''],
          demo_world\<lparr>log := [(LOG_WARN, [S ''LuaMsg_NpcMessage called with incorrect parameters.''])]\<rparr>) \<and>
   \<not> dangling demo_world (index2adr (callback_frame [LLightUserData 100, LLightUserData 200]) 1) \<and>
   \<not> dangling demo_world (index2adr (callback_frame [LLightUserData 100, LLightUserData 200]) 2) \<and>
   \<not> is_text (index2adr (callback_frame [LLightUserData 100, LLightUserData 200]) 3) \<and>
   LuaMsg_NpcChoice demo_lib (callback_frame [LLightUserData 100, LLightUserData 200]) demo_world =
     Inr (0, callback_frame [LLightUserData 100, LLightUserData 200],
          demo_world\<lparr>log := [(LOG_WARN, [S ''LuaMsg_NpcChoice called with incorrect parameters.''])]\<rparr>)"
proof -
  let ?a = "callback_frame [LNumber 5, LLightUserData 200, LString ''hi'']"
  let ?b = "callback_frame [LLightUserData 100, LLightUserData 200]"
  have a1: "\<not> dangling demo_world (index2adr ?a 1)" and a2: "\<not> dangling demo_world (index2adr ?a 2)"
    and a3: "\<not> points_to demo_world OBJECT_NPC (index2adr ?a 1)"
    by (simp_all add: dangling_def points_to_def index2adr_def demo_defs)
  have b1: "\<not> dangling demo_world (index2adr ?b 1)" and b2: "\<not> dangling demo_world (index2adr ?b 2)"
    and b3: "\<not> is_text (index2adr ?b 3)"
    by (simp_all add: dangling_def is_text_def index2adr_def demo_defs)
  have ta: "snd (lua_tolstring demo_lib ?a 3) = ?a" and tb: "snd (lua_tolstring demo_lib ?b 3) = ?b"
    by (simp_all add: lua_tolstring_def index2adr_def demo_defs)
  have la: "log demo_world = []" by (simp add: demo_world_def)
  show ?thesis
    using callback_rejects_wrong_arguments[OF a1 a2 disjI1, OF a3, where lib = demo_lib]
      callback_rejects_wrong_arguments[OF b1 b2 disjI2, OF disjI2, OF b3, where lib = demo_lib]
      a1 a2 a3 b1 b2 b3
    by (simp add: ta tb la)
qed

text \<open>
  Claim C7 as stated fails where the third argument is a number: its tag is "number"
  (\<open>lua_type\<close> gives 3, a string is 4), and the callback sends the message with the
  text "42" and logs nothing.
\<close>

theorem callback_accepts_number_counterexample:
  "lua_type (callback_frame [LLightUserData 100, LLightUserData 200, LNumber 42]) 3 = 3 \<and>
   (case LuaMsg_NpcMessage demo_lib
           (callback_frame [LLightUserData 100, LLightUserData 200, LNumber 42]) demo_world of
      Inr (n, s', w') \<Rightarrow>
        sent w' = [(200, \<lparr>msg_type = GPMSG_NPC_MESSAGE,
                          msg_fields = [WriteShort 7, WriteString ''42'' 2]\<rparr>)] \<and>
        log w' = []
    | Inl f \<Rightarrow> False)"
  by (simp add: callback_defs lua_api_defs demo_defs show_int_42)

subsection \<open>Entity values are raw pointers\<close>

text \<open>
  Claim C1 against the code. \<open>push(Thing *)\<close> puts the address itself on the stack as a
  light userdata, and \<open>getNPC\<close> reads through whatever address comes back. With the NPC
  at address 100 pushed and then destroyed, a callback that receives the retained value
  reads freed memory; and once another NPC (public id 9) lives at that address, the
  callback takes it for the original and sends a message in its name.
\<close>

theorem raw_pointer_outlives_object:
  "(case push_thing (demo_prepared (LFunction 1) []) 100 of
      Inr scr \<Rightarrow> stack (mState scr) = [LFunction 1, LLightUserData 100]
    | Inl f \<Rightarrow> False) \<and>
   LuaMsg_NpcMessage demo_lib
     (callback_frame [LLightUserData 100, LLightUserData 200, LString ''hi''])
     (demo_world\<lparr>things := (things demo_world)(100 := None)\<rparr>) = Inl InvalidPointer \<and>
   (case LuaMsg_NpcMessage demo_lib
           (callback_frame [LLightUserData 100, LLightUserData 200, LString ''hi''])
           (demo_world\<lparr>things := (things demo_world)(100 \<mapsto> \<lparr>getType = OBJECT_NPC, getPublicID = 9\<rparr>)\<rparr>) of
      Inr (n, s', w') \<Rightarrow>
        sent w' = [(200, \<lparr>msg_type = GPMSG_NPC_MESSAGE,
                          msg_fields = [WriteShort 9, WriteString ''hi'' 2]\<rparr>)]
    | Inl f \<Rightarrow> False)"
  by (simp add: push_thing_def callback_defs lua_api_defs demo_defs)

section \<open>Construction and loading\<close>

lemma call_function_unresolved:
  assumes "is_reset scr" and "globals (mState scr) name = LNil"
  shows "\<exists>scr' ps. call_function lib scr name as w =
           Inr (0, scr', LOG LOG_WARN (S ''Failure while calling Lua function: error='' # ps) w)
         \<and> is_reset scr'"
proof -
  define scr2 where "scr2 = scr\<lparr>mState := (mState scr)\<lparr>stack := LNil # map arg_value as\<rparr>,
              nbArgs := int (length as)\<rparr>"
  have c: "call_function lib scr name as w = execute lib scr2 w"
    using prepare_push_all(1)[OF assms(1), where name = name]
      prepare_push_all(2)[OF assms(1), where name = name and as = as] assms(2)
    by (simp add: call_function_def scr2_def)
  have p: "is_preparing scr2" by (simp add: is_preparing_def scr2_def)
  have o: "call_outcome lib scr2 w =
      (Raises LUA_ERRRUN (LString ''attempt to call a nil value''),
       (mState scr2)\<lparr>stack := pending_base scr2\<rparr>, w)"
    by (rule call_outcome_nil) (simp add: pending_function_def scr2_def)
  from execute_raises[OF p o] c show ?thesis by simp
qed

lemma ctor_pcall:
  assumes "stack s = [LFunction f]"
  shows "lua_pcall lib (luaL_openlibs lib s) w 0 0 =
     (case run lib f [] ((luaL_openlibs lib s)\<lparr>stack := []\<rparr>, w) of
        (Returns vs, L', w') \<Rightarrow> Inr (0, L'\<lparr>stack := []\<rparr>, w')
      | (Raises st e, L', w') \<Rightarrow> Inr (status_code st, L'\<lparr>stack := [e]\<rparr>, w')
      | (Diverges, L', w') \<Rightarrow> Inl NoReturn
      | (Crashes, L', w') \<Rightarrow> Inl InvalidPointer)"
  using assms
  by (auto simp: lua_pcall_def luaL_openlibs_def lua_call_value_def adjust_results_def Let_def
      split: prod.splits call_result.splits)

lemma ctor_error:
  assumes "stack s = [LFunction f]"
    and "run lib f [] ((luaL_openlibs lib s)\<lparr>stack := []\<rparr>, w) = (Raises st e, L', w')"
  shows "LuaScript_ctor lib s w =
     Inr (\<lparr>mState = L'\<lparr>stack := []\<rparr>, nbArgs = -1\<rparr>,
          LOG LOG_ERROR [S ''Failure while initializing Lua script: '',
                         (case e of LString t \<Rightarrow> S t | LNumber k \<Rightarrow> S (number2str lib k)
                          | _ \<Rightarrow> NullStr)] w')"
  unfolding LuaScript_ctor_def Let_def ctor_pcall[OF assms(1)] assms(2)
  by (cases e) (simp_all add: status_code_nonzero lua_tostring_def lua_tolstring_def
      index2adr_def lua_pop_def)

lemma set_fields_callbacks:
  "set_fields callbacks t ''msg_npc_message'' = LCFunction CB_NpcMessage"
  "set_fields callbacks t ''msg_npc_choice'' = LCFunction CB_NpcChoice"
  by (simp_all add: callbacks_def)

lemma ctor_success:
  assumes "stack s = [LFunction f]"
    and "run lib f [] ((luaL_openlibs lib s)\<lparr>stack := []\<rparr>, w) = (Returns vs, L', w')"
    and "loaded L' ''tmw'' = LNil"
    and "globals L' ''tmw'' = LNil \<or> (\<exists>t. globals L' ''tmw'' = LTable t)"
  shows "\<exists>scr t. LuaScript_ctor lib s w = Inr (scr, w') \<and> is_reset scr \<and>
           globals (mState scr) ''tmw'' = LTable t \<and>
           tables (mState scr) t ''msg_npc_message'' = LCFunction CB_NpcMessage \<and>
           tables (mState scr) t ''msg_npc_choice'' = LCFunction CB_NpcChoice"
  using assms(3,4)
  unfolding LuaScript_ctor_def Let_def ctor_pcall[OF assms(1)] assms(2)
  by (auto simp: luaL_register_def register_into_def lua_pop_def is_reset_def
      set_fields_callbacks Let_def)

subsection \<open>The constructor\<close>

text \<open>
  Claim C8, as the code has it. The constructor runs the chunk on the stack as a
  function without arguments, in a protected call, after the standard libraries were
  opened; \<open>c\<close>, \<open>L'\<close> and \<open>w'\<close> are what that run does. If the run raises an error, the
  constructor still completes: it logs the error, registers no callback and leaves the
  object in the reset state on the interpreter state as the chunk left it; a later call
  of a name that the chunk had not bound by then returns 0 with a warning. If the run
  succeeds, and \<open>package.loaded\<close> has no entry \<open>tmw\<close> and the global \<open>tmw\<close> is unset or
  a table, the global \<open>tmw\<close> is a table afterwards whose fields \<open>msg_npc_message\<close> and
  \<open>msg_npc_choice\<close> are the two callbacks.
\<close>

theorem LuaScript_construction:
  assumes "stack s = [LFunction f]"
    and "run lib f [] ((luaL_openlibs lib s)\<lparr>stack := []\<rparr>, w) = (c, L', w')"
  shows "(\<forall>st e. c = Raises st e \<longrightarrow>
            LuaScript_ctor lib s w =
              Inr (\<lparr>mState = L'\<lparr>stack := []\<rparr>, nbArgs = -1\<rparr>,
                   LOG LOG_ERROR [S ''Failure while initializing Lua script: '',
                                  (case e of LString t \<Rightarrow> S t | LNumber k \<Rightarrow> S (number2str lib k)
                                   | _ \<Rightarrow> NullStr)] w') \<and>
            (\<forall>name as w2. globals L' name = LNil \<longrightarrow>
               (\<exists>scr' ps. call_function lib \<lparr>mState = L'\<lparr>stack := []\<rparr>, nbArgs = -1\<rparr> name as w2 =
                  Inr (0, scr', LOG LOG_WARN (S ''Failure while calling Lua function: error='' # ps) w2))))
       \<and> (\<forall>vs. c = Returns vs \<and> loaded L' ''tmw'' = LNil \<and>
                (globals L' ''tmw'' = LNil \<or> (\<exists>t. globals L' ''tmw'' = LTable t)) \<longrightarrow>
            (\<exists>scr t. LuaScript_ctor lib s w = Inr (scr, w') \<and> is_reset scr \<and>
               globals (mState scr) ''tmw'' = LTable t \<and>
               tables (mState scr) t ''msg_npc_message'' = LCFunction CB_NpcMessage \<and>
               tables (mState scr) t ''msg_npc_choice'' = LCFunction CB_NpcChoice))"
proof (intro conjI allI impI)
  fix st e assume "c = Raises st e"
  with assms(2) show "LuaScript_ctor lib s w =
              Inr (\<lparr>mState = L'\<lparr>stack := []\<rparr>, nbArgs = -1\<rparr>,
                   LOG LOG_ERROR [S ''Failure while initializing Lua script: '',
                                  (case e of LString t \<Rightarrow> S t | LNumber k \<Rightarrow> S (number2str lib k)
                                   | _ \<Rightarrow> NullStr)] w')"
    by (intro ctor_error[OF assms(1)]) simp
next
  fix st e name as w2
  assume "globals L' name = LNil"
  then have "\<exists>scr' ps. call_function lib \<lparr>mState = L'\<lparr>stack := []\<rparr>, nbArgs = -1\<rparr> name as w2 =
           Inr (0, scr', LOG LOG_WARN (S ''Failure while calling Lua function: error='' # ps) w2)
         \<and> is_reset scr'"
    by (intro call_function_unresolved) (simp_all add: is_reset_def)
  then show "\<exists>scr' ps. call_function lib \<lparr>mState = L'\<lparr>stack := []\<rparr>, nbArgs = -1\<rparr> name as w2 =
           Inr (0, scr', LOG LOG_WARN (S ''Failure while calling Lua function: error='' # ps) w2)"
    by blast
next
  fix vs
  assume a: "c = Returns vs \<and> loaded L' ''tmw'' = LNil \<and>
                (globals L' ''tmw'' = LNil \<or> (\<exists>t. globals L' ''tmw'' = LTable t))"
  with assms(2) have "run lib f [] ((luaL_openlibs lib s)\<lparr>stack := []\<rparr>, w) = (Returns vs, L', w')"
    by simp
  from ctor_success[OF assms(1) this] a
  show "\<exists>scr t. LuaScript_ctor lib s w = Inr (scr, w') \<and> is_reset scr \<and>
               globals (mState scr) ''tmw'' = LTable t \<and>
               tables (mState scr) t ''msg_npc_message'' = LCFunction CB_NpcMessage \<and>
               tables (mState scr) t ''msg_npc_choice'' = LCFunction CB_NpcChoice"
    by blast
qed

text \<open>
  A chunk that fails after defining \<open>onTalk\<close> (a call of \<open>second\<close> then returns 0), and
  the chunk \<open>src_good\<close>, whose construction gives \<open>demo_script\<close>.
\<close>

theorem LuaScript_construction_witness:
  "stack (demo_chunk_state 2) = [LFunction 2] \<and>
   fst (run demo_lib 2 [] ((luaL_openlibs demo_lib (demo_chunk_state 2))\<lparr>stack := []\<rparr>, demo_world)) =
     Raises LUA_ERRRUN (LString ''attempt to call a nil value'') \<and>
   (case LuaScript_ctor demo_lib (demo_chunk_state 2) demo_world of
      Inr (scr, w) \<Rightarrow>
        is_reset scr \<and> globals (mState scr) ''tmw'' = LNil \<and> globals (mState scr) ''second'' = LNil \<and>
        log w = [(LOG_ERROR, [S ''Failure while initializing Lua script: '',
                              S ''attempt to call a nil value''])] \<and>
        (case call_function demo_lib scr ''second'' [IntArg 7, IntArg 9] w of
           Inr (r, scr', w') \<Rightarrow> r = 0
         | Inl f \<Rightarrow> False)
    | Inl f \<Rightarrow> False) \<and>
   stack (demo_chunk_state 0) = [LFunction 0] \<and>
   fst (run demo_lib 0 [] ((luaL_openlibs demo_lib (demo_chunk_state 0))\<lparr>stack := []\<rparr>, demo_world)) =
     Returns [] \<and>
   LuaScript_ctor demo_lib (demo_chunk_state 0) demo_world = Inr (demo_script, demo_world) \<and>
   globals (mState demo_script) ''tmw'' = LTable 0 \<and>
   tables (mState demo_script) 0 ''msg_npc_message'' = LCFunction CB_NpcMessage \<and>
   tables (mState demo_script) 0 ''msg_npc_choice'' = LCFunction CB_NpcChoice"
proof -
  define L2 where "L2 = (demo_chunk_state 2)\<lparr>stack := [], globals := (\<lambda>_. LNil)(''onTalk'' := LFunction 1)\<rparr>"
  define L0 where "L0 = (demo_chunk_state 0)\<lparr>stack := [],
      globals := (\<lambda>_. LNil)(''onTalk'' := LFunction 1, ''second'' := LFunction 6)\<rparr>"
  have s2: "stack (demo_chunk_state 2) = [LFunction 2]" and s0: "stack (demo_chunk_state 0) = [LFunction 0]"
    by (simp_all add: demo_chunk_state_def)
  have r2: "run demo_lib 2 [] ((luaL_openlibs demo_lib (demo_chunk_state 2))\<lparr>stack := []\<rparr>, demo_world) =
      (Raises LUA_ERRRUN (LString ''attempt to call a nil value''), L2, demo_world)"
    by (simp add: L2_def ctor_defs demo_chunk_state_def demo_lib_def demo_run_def)
  have r0: "run demo_lib 0 [] ((luaL_openlibs demo_lib (demo_chunk_state 0))\<lparr>stack := []\<rparr>, demo_world) =
      (Returns [], L0, demo_world)"
    by (simp add: L0_def ctor_defs demo_chunk_state_def demo_lib_def demo_run_def)
  have g2: "globals L2 ''second'' = LNil" by (simp add: L2_def)
  have g0: "loaded L0 ''tmw'' = LNil" "globals L0 ''tmw'' = LNil"
    by (simp_all add: L0_def ctor_defs demo_chunk_state_def)
  note t2 = LuaScript_construction[OF s2 r2, THEN conjunct1, rule_format, OF refl]
  note t0 = LuaScript_construction[OF s0 r0, THEN conjunct2, rule_format, of "[]"]
  have c2: "LuaScript_ctor demo_lib (demo_chunk_state 2) demo_world =
      Inr (\<lparr>mState = L2\<lparr>stack := []\<rparr>, nbArgs = -1\<rparr>,
           LOG LOG_ERROR [S ''Failure while initializing Lua script: '',
                          S ''attempt to call a nil value''] demo_world)"
    using t2[THEN conjunct1] by simp
  have "\<exists>scr' ps. call_function demo_lib \<lparr>mState = L2\<lparr>stack := []\<rparr>, nbArgs = -1\<rparr> ''second''
          [IntArg 7, IntArg 9]
          (LOG LOG_ERROR [S ''Failure while initializing Lua script: '',
                          S ''attempt to call a nil value''] demo_world) =
        Inr (0, scr', LOG LOG_WARN (S ''Failure while calling Lua function: error='' # ps)
          (LOG LOG_ERROR [S ''Failure while initializing Lua script: '',
                          S ''attempt to call a nil value''] demo_world))"
    using t2[THEN conjunct2, rule_format, OF g2] by blast
  then have k2: "(case call_function demo_lib \<lparr>mState = L2\<lparr>stack := []\<rparr>, nbArgs = -1\<rparr> ''second''
          [IntArg 7, IntArg 9]
          (LOG LOG_ERROR [S ''Failure while initializing Lua script: '',
                          S ''attempt to call a nil value''] demo_world) of
           Inr (r, scr', w') \<Rightarrow> r = 0
         | Inl f \<Rightarrow> False)"
    by auto
  have "\<exists>scr t. LuaScript_ctor demo_lib (demo_chunk_state 0) demo_world = Inr (scr, demo_world) \<and>
      is_reset scr \<and> globals (mState scr) ''tmw'' = LTable t"
    using t0 g0 by blast
  moreover have c0: "LuaScript_ctor demo_lib (demo_chunk_state 0) demo_world = Inr (demo_script, demo_world)"
    by (simp add: ctor_defs demo_chunk_state_def lua_api_defs demo_defs fun_upd_twist)
  ultimately show ?thesis
    using s2 s0 r2 r0 k2
    unfolding c2 c0
    by (simp add: is_reset_def L2_def LOG_def demo_defs demo_chunk_state_def luaL_newstate_def)
qed

text \<open>
  Claim C8 as stated fails twice. A chunk that defines \<open>onTalk\<close> and then raises an error
  leaves an object on which a later call of \<open>onTalk\<close> succeeds and returns 1. And a chunk
  that runs without error but assigns a number to the global \<open>tmw\<close> makes
  \<open>luaL_register\<close> raise a name conflict outside any protected call, which ends the
  process instead of registering the callbacks.
\<close>

theorem LuaScript_construction_counterexample:
  "(case LuaScript_ctor demo_lib (demo_chunk_state 2) demo_world of
      Inr (scr, w) \<Rightarrow>
        log w = [(LOG_ERROR, [S ''Failure while initializing Lua script: '',
                              S ''attempt to call a nil value''])] \<and>
        (case call_function demo_lib scr ''onTalk'' [ThingArg 100, ThingArg 200] w of
           Inr (r, scr', w') \<Rightarrow> r = 1 \<and> log w' = log w
         | Inl f \<Rightarrow> False)
    | Inl f \<Rightarrow> False) \<and>
   fst (run demo_lib 5 [] ((luaL_openlibs demo_lib (demo_chunk_state 5))\<lparr>stack := []\<rparr>, demo_world)) =
     Returns [] \<and>
   LuaScript_ctor demo_lib (demo_chunk_state 5) demo_world = Inl LuaPanic"
  by (simp add: ctor_defs demo_chunk_state_def call_defs lua_api_defs demo_defs)

subsection \<open>The loader\<close>

text \<open>
  Claim C6, as the code has it. For a file that the resource manager does not find,
  \<open>loadScript\<close> returns no script and leaves the world as it is: no interpreter state
  was opened, and \<open>loadScript\<close> itself logs nothing. For a file with a syntax error it
  returns no script, logs the syntax error with the file name, and has closed the
  interpreter state it opened (the world differs from the one before only by the log
  line). For any other failure of \<open>luaL_loadstring\<close> it returns no script and has closed
  the state, without a log line.
\<close>

theorem loadScript_failure:
  "(resman filename = None \<longrightarrow> loadScript lib resman filename w = Inr (None, w)) \<and>
   (resman filename = Some buffer \<and> compile lib buffer = Inl (LUA_ERRSYNTAX, msg) \<longrightarrow>
      loadScript lib resman filename w =
        Inr (None, w\<lparr>log := log w @ [(LOG_ERROR, [S ''Syntax error while loading script '',
                                                   S filename])]\<rparr>)) \<and>
   (resman filename = Some buffer \<and> compile lib buffer = Inl (st, msg) \<and> st \<noteq> LUA_ERRSYNTAX \<longrightarrow>
      loadScript lib resman filename w = Inr (None, w))"
proof (intro conjI impI)
  assume "resman filename = None"
  then show "loadScript lib resman filename w = Inr (None, w)" by (simp add: loadScript_def)
next
  assume "resman filename = Some buffer \<and> compile lib buffer = Inl (LUA_ERRSYNTAX, msg)"
  then show "loadScript lib resman filename w =
        Inr (None, w\<lparr>log := log w @ [(LOG_ERROR, [S ''Syntax error while loading script '',
                                                   S filename])]\<rparr>)"
    by (simp add: loadScript_def luaL_newstate_def luaL_loadstring_def lua_close_def LOG_def)
next
  assume a: "resman filename = Some buffer \<and> compile lib buffer = Inl (st, msg) \<and> st \<noteq> LUA_ERRSYNTAX"
  then have "status_code st \<noteq> 0" "status_code st \<noteq> 3"
    by (cases st; simp)+
  with a show "loadScript lib resman filename w = Inr (None, w)"
    by (simp add: loadScript_def luaL_newstate_def luaL_loadstring_def lua_close_def)
qed

text \<open>A missing file, a file with a syntax error, and a parser that runs out of memory.\<close>

theorem loadScript_failure_witness:
  "demo_files ''scripts/none.lua'' = None \<and>
   loadScript demo_lib demo_files ''scripts/none.lua'' demo_world = Inr (None, demo_world) \<and>
   demo_files ''scripts/broken.lua'' = Some ''function (('' \<and>
   compile demo_lib ''function (('' = Inl (LUA_ERRSYNTAX, ''unexpected symbol'') \<and>
   loadScript demo_lib demo_files ''scripts/broken.lua'' demo_world =
     Inr (None, demo_world\<lparr>log := [(LOG_ERROR, [S ''Syntax error while loading script '',
                                                  S ''scripts/broken.lua''])]\<rparr>) \<and>
   compile (demo_lib\<lparr>compile := (\<lambda>_. Inl (LUA_ERRMEM, ''not enough memory''))\<rparr>) ''function (('' =
     Inl (LUA_ERRMEM, ''not enough memory'') \<and>
   loadScript (demo_lib\<lparr>compile := (\<lambda>_. Inl (LUA_ERRMEM, ''not enough memory''))\<rparr>) demo_files
     ''scripts/broken.lua'' demo_world = Inr (None, demo_world)"
proof -
  have a: "demo_files ''scripts/none.lua'' = None"
    and b: "demo_files ''scripts/broken.lua'' = Some ''function (('' "
    by (simp_all add: demo_files_def)
  have c: "compile demo_lib ''function (('' = Inl (LUA_ERRSYNTAX, ''unexpected symbol'')"
    by (simp add: demo_lib_def demo_compile_def src_good_def src_partial_def src_tmw_def)
  have d: "compile (demo_lib\<lparr>compile := (\<lambda>_. Inl (LUA_ERRMEM, ''not enough memory''))\<rparr>) ''function (('' =
     Inl (LUA_ERRMEM, ''not enough memory'')"
    by simp
  have l: "log demo_world = []" by (simp add: demo_world_def)
  show ?thesis
    using loadScript_failure[where resman = demo_files and filename = "''scripts/none.lua''"
        and lib = demo_lib and w = demo_world, THEN conjunct1]
      loadScript_failure[where resman = demo_files and filename = "''scripts/broken.lua''"
        and lib = demo_lib and w = demo_world and buffer = "''function ((''"
        and msg = "''unexpected symbol''", THEN conjunct2, THEN conjunct1]
      loadScript_failure[where resman = demo_files and filename = "''scripts/broken.lua''"
        and lib = "demo_lib\<lparr>compile := (\<lambda>_. Inl (LUA_ERRMEM, ''not enough memory''))\<rparr>"
        and w = demo_world and buffer = "''function ((''" and st = LUA_ERRMEM
        and msg = "''not enough memory''", THEN conjunct2, THEN conjunct2]
      a b c d
    by (simp add: l)
qed

text \<open>
  Claim C6 as stated fails for a missing file: the loader returns no script, and the
  log is as empty as before.
\<close>

theorem loadScript_missing_file_counterexample:
  "demo_files ''scripts/none.lua'' = None \<and>
   (case loadScript demo_lib demo_files ''scripts/none.lua'' demo_world of
      Inr (scr, w') \<Rightarrow> scr = None \<and> log w' = []
    | Inl f \<Rightarrow> False)"
  by (simp add: loadScript_def demo_files_def demo_world_def)

section \<open>Properties of \<open>ItemManager\<close>\<close>

text \<open>
  Claim C9. When the item database file is missing, does not parse as XML, or has no
  root element named \<open>items\<close>, \<open>reload\<close> returns with the table of item classes and the
  stored database version unchanged: \<open>getItem\<close> gives for every id what it gave before.
\<close>

theorem reload_failure_keeps_items:
  assumes "loadFile env (itemReferenceFile im) = None \<or>
           (\<exists>data. loadFile env (itemReferenceFile im) = Some data \<and> xmlParseMemory env data = None) \<or>
           (\<exists>data doc. loadFile env (itemReferenceFile im) = Some data \<and>
                        xmlParseMemory env data = Some doc \<and>
                        (doc = None \<or> (\<exists>node. doc = Some node \<and> node_name node \<noteq> ''items'')))"
  shows "\<exists>im'. reload env im = Inr im' \<and>
           itemClasses im' = itemClasses im \<and>
           itemDatabaseVersion im' = itemDatabaseVersion im \<and>
           (\<forall>itemId. getItem im' itemId = getItem im itemId) \<and>
           GetDatabaseVersion im' = GetDatabaseVersion im"
  using assms
  by (auto simp: reload_def IM_LOG_def getItem_def GetDatabaseVersion_def)

text \<open>
  For comparison, a reload that succeeds does change the table: the database with one
  item of id 1 and weight 5 adds that class and keeps the class 7 that was there.
\<close>

lemma reload_success_example:
  "(case reload demo_env (demo_items ''items.xml'') of
      Inr im' \<Rightarrow>
        map_option weight (getItem im' 1) = Some 5 \<and>
        map_option maxPerSlot (getItem im' 1) = Some 1 \<and>
        map_option spriteID (getItem im' 1) = Some 1 \<and>
        map_option weight (getItem im' 7) = Some 3
    | Inl f \<Rightarrow> False)"
  by code_simp

text \<open>The three failures on the concrete database setting.\<close>

theorem reload_failure_keeps_items_witness:
  "loadFile demo_env (itemReferenceFile (demo_items ''none.xml'')) = None \<and>
   (case reload demo_env (demo_items ''none.xml'') of
      Inr im' \<Rightarrow> map_option weight (getItem im' 7) = Some 3 \<and> GetDatabaseVersion im' = 4
    | Inl f \<Rightarrow> False) \<and>
   loadFile demo_env (itemReferenceFile (demo_items ''broken.xml'')) = Some ''<items'' \<and>
   xmlParseMemory demo_env ''<items'' = None \<and>
   (case reload demo_env (demo_items ''broken.xml'') of
      Inr im' \<Rightarrow> map_option weight (getItem im' 7) = Some 3 \<and> GetDatabaseVersion im' = 4
    | Inl f \<Rightarrow> False) \<and>
   loadFile demo_env (itemReferenceFile (demo_items ''monsters.xml'')) = Some ''<monsters/>'' \<and>
   xmlParseMemory demo_env ''<monsters/>'' = Some (Some (XmlNode ''monsters'' [] [])) \<and>
   (case reload demo_env (demo_items ''monsters.xml'') of
      Inr im' \<Rightarrow> map_option weight (getItem im' 7) = Some 3 \<and> GetDatabaseVersion im' = 4
    | Inl f \<Rightarrow> False)"
proof -
  have a: "loadFile demo_env (itemReferenceFile (demo_items ''none.xml'')) = None"
    and b: "loadFile demo_env (itemReferenceFile (demo_items ''broken.xml'')) = Some ''<items''"
    and b': "xmlParseMemory demo_env ''<items'' = None"
    and c: "loadFile demo_env (itemReferenceFile (demo_items ''monsters.xml'')) = Some ''<monsters/>''"
    and c': "xmlParseMemory demo_env ''<monsters/>'' = Some (Some (XmlNode ''monsters'' [] []))"
    by (simp_all add: demo_env_def demo_items_def)
  have g: "\<And>f. map_option weight (getItem (demo_items f) 7) = Some 3"
    "\<And>f. GetDatabaseVersion (demo_items f) = 4"
    by (simp_all add: demo_items_def getItem_def GetDatabaseVersion_def demo_new_ItemClass_def)
  have ka: "\<exists>im'. reload demo_env (demo_items ''none.xml'') = Inr im' \<and>
      (\<forall>itemId. getItem im' itemId = getItem (demo_items ''none.xml'') itemId) \<and>
      GetDatabaseVersion im' = GetDatabaseVersion (demo_items ''none.xml'')"
    using reload_failure_keeps_items[of demo_env "demo_items ''none.xml''"] a by blast
  have kb: "\<exists>im'. reload demo_env (demo_items ''broken.xml'') = Inr im' \<and>
      (\<forall>itemId. getItem im' itemId = getItem (demo_items ''broken.xml'') itemId) \<and>
      GetDatabaseVersion im' = GetDatabaseVersion (demo_items ''broken.xml'')"
    using reload_failure_keeps_items[of demo_env "demo_items ''broken.xml''"] b b' by blast
  have kc: "\<exists>im'. reload demo_env (demo_items ''monsters.xml'') = Inr im' \<and>
      (\<forall>itemId. getItem im' itemId = getItem (demo_items ''monsters.xml'') itemId) \<and>
      GetDatabaseVersion im' = GetDatabaseVersion (demo_items ''monsters.xml'')"
    using reload_failure_keeps_items[of demo_env "demo_items ''monsters.xml''"] c c' by auto
  show ?thesis
    using ka kb kc a b b' c c' by (auto simp: g)
qed

section \<open>Properties of \<open>AccountClient\<close>\<close>

text \<open>
  Claim C10. After \<open>unsetAccount\<close> the pointer is null and the account that was held is
  released, and a further \<open>unsetAccount\<close> changes nothing. \<open>setAccount\<close> releases the
  account held before and then stores the new pointer, so the client holds at most one
  account; the destructor releases the one it holds. The last part says that the
  operations do return when the held pointer, if any, points to a live account.
\<close>

theorem account_client_ownership:
  "(unsetAccount (c, h) = Inr (c', h') \<longrightarrow>
      mAccount c' = None \<and> h' = h - set_option (mAccount c) \<and>
      unsetAccount (c', h') = Inr (c', h')) \<and>
   (setAccount (c, h) acc = Inr (c1, h1) \<longrightarrow>
      mAccount c1 = acc \<and> h1 = h - set_option (mAccount c) \<and> card (set_option (mAccount c1)) \<le> 1) \<and>
   (AccountClient_dtor (c, h) = Inr (c2, h2) \<longrightarrow>
      mAccount c2 = None \<and> h2 = h - set_option (mAccount c)) \<and>
   (set_option (mAccount c) \<subseteq> h \<longrightarrow>
      unsetAccount (c, h) = Inr (c\<lparr>mAccount := None\<rparr>, h - set_option (mAccount c)) \<and>
      setAccount (c, h) acc = Inr (c\<lparr>mAccount := acc\<rparr>, h - set_option (mAccount c)))"
proof -
  have u: "unsetAccount (c, h) = Inr (c', h') \<Longrightarrow>
      mAccount c' = None \<and> h' = h - set_option (mAccount c) \<and> c' = c\<lparr>mAccount := None\<rparr>" for c' h'
    by (auto simp: unsetAccount_def split: option.splits if_splits)
  have i: "unsetAccount (c', h') = Inr (c', h')" if "mAccount c' = None" for c' :: AccountClient and h'
    using that by (simp add: unsetAccount_def)
  have t: "set_option (mAccount c) \<subseteq> h \<Longrightarrow>
      unsetAccount (c, h) = Inr (c\<lparr>mAccount := None\<rparr>, h - set_option (mAccount c))"
    by (auto simp: unsetAccount_def split: option.splits)
  have cd: "card (set_option x) \<le> 1" for x :: "nat option"
    by (cases x) simp_all
  show ?thesis
  proof (intro conjI impI)
    assume "setAccount (c, h) acc = Inr (c1, h1)"
    then obtain c0 where "unsetAccount (c, h) = Inr (c0, h1)" "c1 = c0\<lparr>mAccount := acc\<rparr>"
      by (auto simp: setAccount_def split: sum.splits)
    with u[of c0 h1] show "mAccount c1 = acc" "h1 = h - set_option (mAccount c)" by simp_all
    show "card (set_option (mAccount c1)) \<le> 1" by (rule cd)
  next
    assume "AccountClient_dtor (c, h) = Inr (c2, h2)"
    with u[of c2 h2] show "mAccount c2 = None" "h2 = h - set_option (mAccount c)"
      by (simp_all add: AccountClient_dtor_def)
  next
    assume a: "unsetAccount (c, h) = Inr (c', h')"
    with u[of c' h'] show "mAccount c' = None" "h' = h - set_option (mAccount c)" by simp_all
    with i show "unsetAccount (c', h') = Inr (c', h')" by simp
  next
    assume s: "set_option (mAccount c) \<subseteq> h"
    from t[OF s] show "unsetAccount (c, h) = Inr (c\<lparr>mAccount := None\<rparr>, h - set_option (mAccount c))" .
    with s show "setAccount (c, h) acc = Inr (c\<lparr>mAccount := acc\<rparr>, h - set_option (mAccount c))"
      by (simp add: setAccount_def)
  qed
qed

text \<open>A client holding account 5 while accounts 5 and 6 are alive.\<close>

theorem account_client_ownership_witness:
  "set_option (mAccount demo_client) \<subseteq> {5, 6} \<and>
   unsetAccount (demo_client, {5, 6}) = Inr (demo_client\<lparr>mAccount := None\<rparr>, {6}) \<and>
   unsetAccount (demo_client\<lparr>mAccount := None\<rparr>, {6}) = Inr (demo_client\<lparr>mAccount := None\<rparr>, {6}) \<and>
   setAccount (demo_client, {5, 6}) (Some 6) = Inr (demo_client\<lparr>mAccount := Some 6\<rparr>, {6}) \<and>
   AccountClient_dtor (demo_client\<lparr>mAccount := Some 6\<rparr>, {6}) = Inr (demo_client\<lparr>mAccount := None\<rparr>, {})"
proof -
  have s: "set_option (mAccount demo_client) \<subseteq> {5, 6}" by (simp add: demo_client_def)
  have d: "{5, 6} - set_option (mAccount demo_client) = {6 :: nat}" by (auto simp: demo_client_def)
  note t = account_client_ownership[where c = demo_client and h = "{5, 6}" and acc = "Some 6",
      THEN conjunct2, THEN conjunct2, THEN conjunct2, rule_format, OF s]
  have u: "unsetAccount (demo_client, {5, 6}) = Inr (demo_client\<lparr>mAccount := None\<rparr>, {6})"
    using t[THEN conjunct1] by (simp add: d)
  have v: "unsetAccount (demo_client\<lparr>mAccount := None\<rparr>, {6}) = Inr (demo_client\<lparr>mAccount := None\<rparr>, {6})"
    using account_client_ownership[where c = demo_client and h = "{5, 6}"
        and c' = "demo_client\<lparr>mAccount := None\<rparr>" and h' = "{6}", THEN conjunct1] u by simp
  have x: "setAccount (demo_client, {5, 6}) (Some 6) = Inr (demo_client\<lparr>mAccount := Some 6\<rparr>, {6})"
    using t[THEN conjunct2] by (simp add: d)
  have y: "AccountClient_dtor (demo_client\<lparr>mAccount := Some 6\<rparr>, {6}) = Inr (demo_client\<lparr>mAccount := None\<rparr>, {})"
    by (simp add: AccountClient_dtor_def unsetAccount_def)
  show ?thesis using s u v x y by simp
qed

end
